theory Spec2Isabelle
  imports Complex_Main
begin

section \<open>CNTK 105: basic autoencoder notebook\<close>

text \<open>
  The notebook computes with NumPy and CNTK floating-point numbers. In training and testing
  they are modelled by the real numbers: rounding is left out. In the cosine similarity, where
  overflow and underflow decide the result, every arithmetic operation goes through the
  rounding of the floating-point format, and the infinities and NaN are explicit values.
  Python exceptions are values of the type \<open>error\<close>; a function that can raise returns
  \<open>error + 'a\<close>, with \<open>Inl\<close> for the exception.
\<close>

type_synonym vec = "real list"

datatype error =
    ValueError
  | IndexError
  | ZeroDivisionError
  | ShapeError
  | NumericError
  | EmptyMinibatch

subsection \<open>Label grouping (cell 29)\<close>

text \<open>
  \<^verbatim>\<open>img_labels = [np.argmax(imglabel_raw[i,:,:]) for i in range(0, imglabel_raw.shape[0])]\<close>

  \<open>np.argmax\<close> returns the index of the first maximal entry and raises ValueError on an empty
  array. \<open>argmax_scan best bv i xs\<close> scans the remaining entries \<open>xs\<close>, which start at index
  \<open>i\<close>, keeping the index \<open>best\<close> of the largest value \<open>bv\<close> seen so far.
\<close>

fun argmax_scan :: "nat \<Rightarrow> real \<Rightarrow> nat \<Rightarrow> vec \<Rightarrow> nat" where
  "argmax_scan best bv i [] = best"
| "argmax_scan best bv i (x # xs) =
     (if bv < x then argmax_scan i x (Suc i) xs else argmax_scan best bv (Suc i) xs)"

definition np_argmax :: "vec \<Rightarrow> error + nat" where
  "np_argmax xs = (case xs of [] \<Rightarrow> Inl ValueError | x # r \<Rightarrow> Inr (argmax_scan 0 x 1 r))"

fun img_labels :: "vec list \<Rightarrow> error + nat list" where
  "img_labels [] = Inr []"
| "img_labels (l # ls) =
     (case np_argmax l of
        Inl e \<Rightarrow> Inl e
      | Inr k \<Rightarrow> (case img_labels ls of Inl e \<Rightarrow> Inl e | Inr ks \<Rightarrow> Inr (k # ks)))"

text \<open>
  \<^verbatim>\<open>
  label_dict=defaultdict(list)
  for img_idx, img_label, in enumerate(img_labels):
      label_dict[img_label].append(img_idx)
  \<close>
  A \<open>defaultdict(list)\<close> is a total function from keys to lists, the empty list where nothing
  has been stored.
\<close>

type_synonym label_dict = "nat \<Rightarrow> nat list"

fun label_dict_loop :: "label_dict \<Rightarrow> (nat \<times> nat) list \<Rightarrow> label_dict" where
  "label_dict_loop d [] = d"
| "label_dict_loop d ((img_idx, img_label) # rest) =
     label_dict_loop (d(img_label := d img_label @ [img_idx])) rest"

definition label_dict :: "nat list \<Rightarrow> label_dict" where
  "label_dict labels = label_dict_loop (\<lambda>_. []) (enumerate 0 labels)"

text \<open>A one-hot vector over \<open>c\<close> classes: \<open>c\<close> entries, one of them 1, the others 0.\<close>

definition one_hot :: "nat \<Rightarrow> vec \<Rightarrow> bool" where
  "one_hot c l = (length l = c \<and> count_list l 1 = 1 \<and> list_all (\<lambda>x. x = 0 \<or> x = 1) l)"

subsection \<open>Sequencing calls that can raise\<close>

text \<open>
  Nothing in the notebook catches an exception, so a statement sequence stops at the first
  call that raises: \<open>and_then r f\<close> runs \<open>f\<close> on the value of \<open>r\<close>, or passes the
  exception of \<open>r\<close> on.
\<close>

definition and_then :: "error + 'a \<Rightarrow> ('a \<Rightarrow> error + 'b) \<Rightarrow> error + 'b" where
  "and_then r f = (case r of Inl e \<Rightarrow> Inl e | Inr x \<Rightarrow> f x)"

subsection \<open>Floating-point values\<close>










subsection \<open>Cosine similarity (cell 31)\<close>






subsection \<open>Computation graphs and parameters\<close>

text \<open>
  Modelled from the spec: the CNTK graph primitives the notebook calls (\<open>Input\<close>, \<open>Dense\<close>,
  \<open>C.element_times\<close>, \<open>C.log\<close>, the arithmetic operators, \<open>C.classification_error\<close>) are not
  part of the notebook. A model is a chain of transformations over an input vector; a dense
  transformation owns a weight matrix and a bias vector sized to its input and output
  dimensionality, applies the affine map and then its activation. Parameters are mutable and
  shared by every graph that contains the layer, so they live in a store indexed by a
  parameter id, and a graph node only refers to the id.
\<close>

datatype activation = Relu | Sigmoid

fun act :: "activation \<Rightarrow> real \<Rightarrow> real" where
  "act Relu x = max 0 x"
| "act Sigmoid x = 1 / (1 + exp (- x))"

text \<open>The two input variables that \<open>train_and_test\<close> creates with \<open>Input(input_dim)\<close>.\<close>

datatype var = V_input | V_label

datatype node =
    Input var nat
  | Div_const node real
  | Const_times real node
  | Dense nat nat activation node
  | Log node
  | Negate node
  | Minus_from real node
  | Add node node
  | Element_times node node
  | Classification_error node node

record store =
  weights :: "nat \<Rightarrow> nat \<Rightarrow> nat \<Rightarrow> real"
  biases :: "nat \<Rightarrow> nat \<Rightarrow> real"

text \<open>The static shape of a node: the number of components of the vector it evaluates to.\<close>

primrec shape :: "node \<Rightarrow> nat" where
  "shape (Input v d) = d"
| "shape (Div_const x c) = shape x"
| "shape (Const_times c x) = shape x"
| "shape (Dense pid n a x) = n"
| "shape (Log x) = shape x"
| "shape (Negate x) = shape x"
| "shape (Minus_from c x) = shape x"
| "shape (Add x y) = shape x"
| "shape (Element_times x y) = shape x"
| "shape (Classification_error x y) = 1"

definition dense_out :: "store \<Rightarrow> nat \<Rightarrow> nat \<Rightarrow> activation \<Rightarrow> vec \<Rightarrow> vec" where
  "dense_out st pid n a v =
     map (\<lambda>j. act a (sum_list (map (\<lambda>i. v ! i * weights st pid i j) [0..<length v])
                       + biases st pid j)) [0..<n]"

definition binary :: "(real \<Rightarrow> real \<Rightarrow> real) \<Rightarrow> vec \<Rightarrow> vec \<Rightarrow> error + vec" where
  "binary f u v = (if length u \<noteq> length v then Inl ShapeError else Inr (map2 f u v))"

text \<open>
  Evaluation of a node for one sample. \<open>ce\<close> decides whether an output vector counts as an
  error against a target vector (the classification-style error metric; the spec leaves its
  exact decision open). A variable bound to a vector of the wrong length, operands of unequal
  length and the logarithm of a non-positive number are errors.
\<close>

primrec eval :: "(vec \<Rightarrow> vec \<Rightarrow> bool) \<Rightarrow> store \<Rightarrow> (var \<Rightarrow> vec) \<Rightarrow> node \<Rightarrow> error + vec" where
  "eval ce st env (Input v d) = (if length (env v) = d then Inr (env v) else Inl ShapeError)"
| "eval ce st env (Div_const x c) =
     and_then (eval ce st env x) (\<lambda>u. Inr (map (\<lambda>a. a / c) u))"
| "eval ce st env (Const_times c x) =
     and_then (eval ce st env x) (\<lambda>u. Inr (map (\<lambda>a. c * a) u))"
| "eval ce st env (Dense pid n a x) =
     and_then (eval ce st env x) (\<lambda>u. Inr (dense_out st pid n a u))"
| "eval ce st env (Log x) =
     and_then (eval ce st env x)
       (\<lambda>u. if list_all (\<lambda>a. 0 < a) u then Inr (map ln u) else Inl NumericError)"
| "eval ce st env (Negate x) =
     and_then (eval ce st env x) (\<lambda>u. Inr (map uminus u))"
| "eval ce st env (Minus_from c x) =
     and_then (eval ce st env x) (\<lambda>u. Inr (map (\<lambda>a. c - a) u))"
| "eval ce st env (Add x y) =
     and_then (eval ce st env x) (\<lambda>u. and_then (eval ce st env y) (binary (+) u))"
| "eval ce st env (Element_times x y) =
     and_then (eval ce st env x) (\<lambda>u. and_then (eval ce st env y) (binary (*) u))"
| "eval ce st env (Classification_error x y) =
     and_then (eval ce st env x) (\<lambda>u. and_then (eval ce st env y)
       (\<lambda>v. if length u \<noteq> length v then Inl ShapeError
            else Inr [if ce u v then 1 else 0]))"

subsection \<open>Model construction (cells 10 and 21)\<close>

text \<open>
  The notebook's globals that the claims are about: the parameter store of the framework, the
  counter that names the next parameter to be created, the global \<open>encoded_model\<close> of cell 21
  (\<open>None\<close> is Python's \<open>None\<close>) and the flag \<open>isFast\<close> of cell 5.

  Parameters are initialised at random (\<open>glorot_uniform\<close>) when a layer is created. The
  store is total, so the values a layer starts with are the ones the store holds at its fresh
  id: the random initialisation is whatever the initial store contains.
\<close>

record notebook =
  params :: store
  next_pid :: nat
  encoded_model :: "node option"
  isFast :: bool

definition input_dim :: nat where "input_dim = 784"
definition encoding_dim :: nat where "encoding_dim = 32"
definition output_dim :: nat where "output_dim = input_dim"
definition encoding_dims :: "nat list" where "encoding_dims = [128, 64, 32]"
definition decoding_dims :: "nat list" where "decoding_dims = [64, 128]"

text \<open>\<open>Dense(n, activation = a)(x)\<close>: a new layer over \<open>x\<close> with fresh parameters.\<close>

definition dense_layer :: "nat \<Rightarrow> activation \<Rightarrow> node \<Rightarrow> notebook \<Rightarrow> node \<times> notebook" where
  "dense_layer n a x s = (Dense (next_pid s) n a x, s\<lparr>next_pid := Suc (next_pid s)\<rparr>)"

text \<open>
  \<^verbatim>\<open>
  def create_model(features):
      with default_options(init = glorot_uniform()):
          encode = Dense(encoding_dim, activation = C.relu)(features/255.0)
          decode = Dense(input_dim, activation = C.sigmoid)(encode)
      return decode
  \<close>
\<close>

definition create_model :: "node \<Rightarrow> notebook \<Rightarrow> node \<times> notebook" where
  "create_model features s =
     (let (encode, s1) = dense_layer encoding_dim Relu (Div_const features 255) s;
          (decode, s2) = dense_layer input_dim Sigmoid encode s1
      in (decode, s2))"

text \<open>
  \<^verbatim>\<open>
  def create_deep_model(features):
      with default_options(init = glorot_uniform()):
          encode = C.element_times(C.constant(1.0/255.0), features)
          for encoding_dim in encoding_dims:
              encode = Dense(encoding_dim, activation = C.relu)(encode)
          global encoded_model
          encoded_model= encode
          decode = encode
          for decoding_dim in decoding_dims:
              decode = Dense(decoding_dim, activation = C.relu)(decode)
          decode = Dense(input_dim, activation = C.sigmoid)(decode)
          return decode
  \<close>
  \<open>dense_stack\<close> is either of the two \<open>for\<close> loops.
\<close>

fun dense_stack :: "nat list \<Rightarrow> node \<Rightarrow> notebook \<Rightarrow> node \<times> notebook" where
  "dense_stack [] x s = (x, s)"
| "dense_stack (d # ds) x s = (let (x', s') = dense_layer d Relu x s in dense_stack ds x' s')"

definition create_deep_model :: "node \<Rightarrow> notebook \<Rightarrow> node \<times> notebook" where
  "create_deep_model features s =
     (let encode0 = Const_times (1 / 255) features;
          (encode, s1) = dense_stack encoding_dims encode0 s;
          s2 = s1\<lparr>encoded_model := Some encode\<rparr>;
          (decode, s3) = dense_stack decoding_dims encode s2;
          (decode', s4) = dense_layer input_dim Sigmoid decode s3
      in (decode', s4))"

subsection \<open>Data source (cell 7)\<close>

text \<open>
  Modelled from the spec: \<open>MinibatchSource\<close> and \<open>CTFDeserializer\<close> are the framework's.
  A record of the file lists a labels field and a features field. In training mode batches
  are drawn with shuffling and the pass is unbounded (the source repeats indefinitely); in
  evaluation mode batches are drawn in file order and the pass ends after one traversal of
  the data set, so the last batch can be short and later ones empty. The shuffling is the
  function \<open>rd_shuffle\<close>: the \<open>k\<close>-th sample drawn is the one at index
  \<open>rd_shuffle k mod n\<close> of the file.
\<close>

record sample =
  labels_viz :: vec
  features :: vec

datatype stream = Labels_viz | Features

fun stream_value :: "stream \<Rightarrow> sample \<Rightarrow> vec" where
  "stream_value Labels_viz s = labels_viz s"
| "stream_value Features s = features s"

record reader =
  rd_samples :: "sample list"
  rd_training :: bool
  rd_shuffle :: "nat \<Rightarrow> nat"
  rd_pos :: nat

text \<open>
  \<^verbatim>\<open>
  def create_reader(path, is_training, input_dim, num_label_classes):
      return MinibatchSource(CTFDeserializer(path, StreamDefs(
          labels_viz = StreamDef(field='labels', shape=num_label_classes, is_sparse=False),
          features   = StreamDef(field='features', shape=input_dim, is_sparse=False)
      )), randomize = is_training,
          epoch_size = INFINITELY_REPEAT if is_training else FULL_DATA_SWEEP)
  \<close>
  \<open>file\<close> is the parsed content of the file at \<open>path\<close>, \<open>shuffle\<close> the randomisation.
\<close>

definition create_reader :: "sample list \<Rightarrow> (nat \<Rightarrow> nat) \<Rightarrow> bool \<Rightarrow> reader" where
  "create_reader file shuffle is_training =
     \<lparr>rd_samples = file, rd_training = is_training, rd_shuffle = shuffle, rd_pos = 0\<rparr>"

text \<open>
  A minibatch binds, for every sample, the input variables to the streams the input map names.
\<close>

type_synonym minibatch = "(var \<Rightarrow> vec) list"

definition bind_sample :: "(var \<Rightarrow> stream) \<Rightarrow> sample \<Rightarrow> var \<Rightarrow> vec" where
  "bind_sample input_map s v = stream_value (input_map v) s"

definition draw :: "reader \<Rightarrow> nat \<Rightarrow> sample list" where
  "draw r n =
     (if rd_training r then
        (if rd_samples r = [] then []
         else map (\<lambda>k. rd_samples r ! (rd_shuffle r k mod length (rd_samples r)))
                [rd_pos r..<rd_pos r + n])
      else take n (drop (rd_pos r) (rd_samples r)))"

definition next_minibatch :: "reader \<Rightarrow> nat \<Rightarrow> (var \<Rightarrow> stream) \<Rightarrow> minibatch \<times> reader" where
  "next_minibatch r n input_map =
     (map (bind_sample input_map) (draw r n), r\<lparr>rd_pos := rd_pos r + length (draw r n)\<rparr>)"

subsection \<open>Trainer and progress printer\<close>

text \<open>
  The parts of the framework that stay parameters: which output and target vectors the
  classification-style metric counts as an error, the learner created by \<open>adam_sgd\<close>
  (its internal state has the type \<open>'l\<close>) and the parameter update it computes from its
  state, the current parameters, the loss and the minibatch.
\<close>

record 'l framework =
  misclassified :: "vec \<Rightarrow> vec \<Rightarrow> bool"
  adam_sgd :: 'l
  learner_step :: "'l \<Rightarrow> store \<Rightarrow> node \<Rightarrow> minibatch \<Rightarrow> 'l \<times> store"

text \<open>
  Modelled from the spec: the \<open>Trainer\<close> object is the framework's. It holds the model, the
  loss and the error metric it was made with and the learner's state, and remembers the metric
  average and the sample count of the last training minibatch.
\<close>

record 'l trainer =
  tr_model :: node
  tr_loss :: node
  tr_metric :: node
  tr_learner :: 'l
  previous_minibatch_evaluation_average :: real
  previous_minibatch_sample_count :: nat
  updates :: nat

text \<open>
  The metric summed over the samples of a minibatch, and its average over the minibatch, which
  is what the trainer reports for it. An empty minibatch has no average.
\<close>

fun metric_sum :: "(vec \<Rightarrow> vec \<Rightarrow> bool) \<Rightarrow> store \<Rightarrow> node \<Rightarrow> minibatch \<Rightarrow> error + real" where
  "metric_sum ce st m [] = Inr 0"
| "metric_sum ce st m (env # data) =
     (case eval ce st env m of
        Inl e \<Rightarrow> Inl e
      | Inr v \<Rightarrow> (case metric_sum ce st m data of
                   Inl e \<Rightarrow> Inl e
                 | Inr t \<Rightarrow> Inr (sum_list v + t)))"

definition metric_average ::
  "(vec \<Rightarrow> vec \<Rightarrow> bool) \<Rightarrow> store \<Rightarrow> node \<Rightarrow> minibatch \<Rightarrow> error + real" where
  "metric_average ce st m data =
     (if data = [] then Inl EmptyMinibatch
      else and_then (metric_sum ce st m data) (\<lambda>t. Inr (t / real (length data))))"

text \<open>
  Modelled from the spec: \<open>Trainer.train_minibatch\<close> is the framework's. One step computes
  the error metric between output and rescaled target on the batch and applies one optimizer
  update to all model parameters. \<open>updates\<close> counts the optimizer updates applied.
\<close>

definition train_minibatch ::
  "'l framework \<Rightarrow> 'l trainer \<Rightarrow> store \<Rightarrow> minibatch \<Rightarrow> error + ('l trainer \<times> store)" where
  "train_minibatch fw tr st data =
     and_then (metric_average (misclassified fw) st (tr_metric tr) data)
       (\<lambda>avg. let (l', st') = learner_step fw (tr_learner tr) st (tr_loss tr) data
              in Inr (tr\<lparr>tr_learner := l',
                         previous_minibatch_evaluation_average := avg,
                         previous_minibatch_sample_count := length data,
                         updates := Suc (updates tr)\<rparr>, st'))"

text \<open>
  Modelled from the spec: \<open>Trainer.test_minibatch\<close> is the framework's. It computes the same
  error metric on the batch, with no parameter update: trainer and parameters are returned as
  they were given.
\<close>

definition test_minibatch ::
  "'l framework \<Rightarrow> 'l trainer \<Rightarrow> store \<Rightarrow> minibatch \<Rightarrow> error + (real \<times> 'l trainer \<times> store)" where
  "test_minibatch fw tr st data =
     and_then (metric_average (misclassified fw) st (tr_metric tr) data)
       (\<lambda>avg. Inr (avg, tr, st))"

text \<open>
  Modelled from the spec: \<open>ProgressPrinter\<close> is the framework's. It accumulates a running
  average of the error metric across all steps: the sum of metric times sample count, and
  the sample count.
\<close>

record progress_printer =
  metric_since_start :: real
  samples_since_start :: nat

definition update_with_trainer :: "progress_printer \<Rightarrow> 'l trainer \<Rightarrow> progress_printer" where
  "update_with_trainer pp tr =
     (if previous_minibatch_sample_count tr = 0 then pp
      else pp\<lparr>samples_since_start :=
                 samples_since_start pp + previous_minibatch_sample_count tr,
               metric_since_start :=
                 metric_since_start pp + previous_minibatch_evaluation_average tr
                   * real (previous_minibatch_sample_count tr)\<rparr>)"

definition avg_metric_since_start :: "progress_printer \<Rightarrow> error + real" where
  "avg_metric_since_start pp =
     (if samples_since_start pp = 0 then Inl ZeroDivisionError
      else Inr (metric_since_start pp / real (samples_since_start pp)))"

subsection \<open>Training and testing (cell 12)\<close>

text \<open>
  \<^verbatim>\<open>
  input = Input(input_dim)
  label = Input(input_dim)
  model = model_func(input)
  target = label/255.0
  loss = -(target * C.log(model) + (1 - target) * C.log(1 - model))
  label_error  = C.classification_error(model, target)
  ...
  learner = adam_sgd(model.parameters,
                     lr=lr_schedule, momentum=momentum_as_time_constant, unit_gain=True)
  trainer = Trainer(model, loss, label_error, learner)
  \<close>
\<close>

definition make_trainer ::
  "'l framework \<Rightarrow> (node \<Rightarrow> notebook \<Rightarrow> node \<times> notebook) \<Rightarrow> notebook \<Rightarrow> 'l trainer \<times> notebook" where
  "make_trainer fw model_func s =
     (let input = Input V_input input_dim;
          label = Input V_label input_dim;
          (model, s1) = model_func input s;
          target = Div_const label 255;
          loss = Negate (Add (Element_times target (Log model))
                             (Element_times (Minus_from 1 target) (Log (Minus_from 1 model))));
          label_error = Classification_error model target
      in (\<lparr>tr_model = model, tr_loss = loss, tr_metric = label_error,
           tr_learner = adam_sgd fw,
           previous_minibatch_evaluation_average = 0,
           previous_minibatch_sample_count = 0,
           updates = 0\<rparr>, s1))"

text \<open>
  \<^verbatim>\<open>
  epoch_size = 30000        # 30000 samples is half the dataset size
  minibatch_size = 64
  num_sweeps_to_train_with = 5 if isFast else 100
  num_samples_per_sweep = 60000
  num_minibatches_to_train = (num_samples_per_sweep * num_sweeps_to_train_with) // minibatch_size
  \<close>
  \<open>epoch_size\<close> is used by the learning rate schedule only, which is part of the learner.
\<close>

definition epoch_size :: nat where "epoch_size = 30000"
definition minibatch_size :: nat where "minibatch_size = 64"
definition num_sweeps_to_train_with :: "bool \<Rightarrow> nat" where
  "num_sweeps_to_train_with fast = (if fast then 5 else 100)"
definition num_samples_per_sweep :: nat where "num_samples_per_sweep = 60000"
definition num_minibatches_to_train :: "bool \<Rightarrow> nat" where
  "num_minibatches_to_train fast =
     (num_samples_per_sweep * num_sweeps_to_train_with fast) div minibatch_size"

text \<open>
  \<^verbatim>\<open>
  input_map = {
      input  : reader_train.streams.features,
      label  : reader_train.streams.features
  }
  \<close>
  The test input map binds the same streams of the test reader.
\<close>

definition input_map :: "var \<Rightarrow> stream" where
  "input_map v = (case v of V_input \<Rightarrow> Features | V_label \<Rightarrow> Features)"

text \<open>
  \<^verbatim>\<open>
  pp = ProgressPrinter(0)
  for i in range(num_minibatches_to_train):
      data = reader_train.next_minibatch(minibatch_size, input_map = input_map)
      trainer.train_minibatch(data)
      pp.update_with_trainer(trainer, with_metric=True)
  train_error = pp.avg_metric_since_start()*100
  \<close>
  The first argument of \<open>train_loop\<close> is the number of iterations still to run.
\<close>

type_synonym 'l train_state = "reader \<times> 'l trainer \<times> store \<times> progress_printer"

fun train_loop :: "'l framework \<Rightarrow> nat \<Rightarrow> 'l train_state \<Rightarrow> error + 'l train_state" where
  "train_loop fw 0 s = Inr s"
| "train_loop fw (Suc i) (rd, tr, st, pp) =
     (case next_minibatch rd minibatch_size input_map of
        (data, rd') \<Rightarrow>
          (case train_minibatch fw tr st data of
             Inl e \<Rightarrow> Inl e
           | Inr (tr', st') \<Rightarrow> train_loop fw i (rd', tr', st', update_with_trainer pp tr')))"

definition training_phase ::
  "'l framework \<Rightarrow> bool \<Rightarrow> reader \<Rightarrow> 'l trainer \<Rightarrow> store
     \<Rightarrow> error + (reader \<times> 'l trainer \<times> store \<times> real)" where
  "training_phase fw fast reader_train trainer st =
     (case train_loop fw (num_minibatches_to_train fast)
             (reader_train, trainer, st, \<lparr>metric_since_start = 0, samples_since_start = 0\<rparr>) of
        Inl e \<Rightarrow> Inl e
      | Inr (rd, tr, st', pp) \<Rightarrow>
          and_then (avg_metric_since_start pp) (\<lambda>avg. Inr (rd, tr, st', avg * 100)))"

text \<open>
  \<^verbatim>\<open>
  test_minibatch_size = 32
  num_samples = 10000
  num_minibatches_to_test = num_samples / test_minibatch_size
  test_result = 0.0
  metric_numer    = 0
  metric_denom    = 0
  ...
  for i in range(0, int(num_minibatches_to_test)):
      data = reader_test.next_minibatch(test_minibatch_size,
                                     input_map = test_input_map)
      eval_error = trainer.test_minibatch(data)
      metric_numer += np.abs(eval_error * test_minibatch_size)
      metric_denom += test_minibatch_size
  test_error = (metric_numer*100.0) / (metric_denom)
  \<close>
  The quotient \<open>num_samples / test_minibatch_size\<close> is 312.5 in Python 3 and 312 in Python 2;
  \<open>int\<close> truncates it to 312 either way.
\<close>

definition test_minibatch_size :: nat where "test_minibatch_size = 32"
definition num_samples :: nat where "num_samples = 10000"
definition num_minibatches_to_test :: real where
  "num_minibatches_to_test = real num_samples / real test_minibatch_size"

type_synonym 'l test_state = "reader \<times> 'l trainer \<times> store \<times> real \<times> nat"

fun test_loop :: "'l framework \<Rightarrow> nat \<Rightarrow> 'l test_state \<Rightarrow> error + 'l test_state" where
  "test_loop fw 0 s = Inr s"
| "test_loop fw (Suc i) (rd, tr, st, metric_numer, metric_denom) =
     (case next_minibatch rd test_minibatch_size input_map of
        (data, rd') \<Rightarrow>
          (case test_minibatch fw tr st data of
             Inl e \<Rightarrow> Inl e
           | Inr (eval_error, tr', st') \<Rightarrow>
               test_loop fw i
                 (rd', tr', st',
                  metric_numer + \<bar>eval_error * real test_minibatch_size\<bar>,
                  metric_denom + test_minibatch_size)))"

definition testing_phase ::
  "'l framework \<Rightarrow> reader \<Rightarrow> 'l trainer \<Rightarrow> store
     \<Rightarrow> error + (reader \<times> 'l trainer \<times> store \<times> real)" where
  "testing_phase fw reader_test trainer st =
     (case test_loop fw (nat \<lfloor>num_minibatches_to_test\<rfloor>) (reader_test, trainer, st, 0, 0) of
        Inl e \<Rightarrow> Inl e
      | Inr (rd, tr, st', metric_numer, metric_denom) \<Rightarrow>
          (if metric_denom = 0 then Inl ZeroDivisionError
           else Inr (rd, tr, st', metric_numer * 100 / real metric_denom)))"

text \<open>
  The whole of \<open>train_and_test(reader_train, reader_test, model_func)\<close>: it returns
  \<open>model, train_error, test_error\<close>; the notebook with the trained parameters and the two
  readers, which the calls have advanced, are returned with them.
\<close>

definition train_and_test ::
  "'l framework \<Rightarrow> reader \<Rightarrow> reader \<Rightarrow> (node \<Rightarrow> notebook \<Rightarrow> node \<times> notebook) \<Rightarrow> notebook
     \<Rightarrow> error + ((node \<times> real \<times> real) \<times> notebook \<times> reader \<times> reader)" where
  "train_and_test fw reader_train reader_test model_func s =
     (let (trainer, s1) = make_trainer fw model_func s in
      and_then (training_phase fw (isFast s1) reader_train trainer (params s1))
        (\<lambda>(rd_train, tr1, st1, train_error).
           and_then (testing_phase fw reader_test tr1 st1)
             (\<lambda>(rd_test, tr2, st2, test_error).
                Inr ((tr_model trainer, train_error, test_error),
                     s1\<lparr>params := st2\<rparr>, rd_train, rd_test))))"

text \<open>
  The \<open>i\<close>-th minibatch that the test loop reads from a file in evaluation mode, and the
  value \<open>trainer.test_minibatch\<close> returns for it (0 if the call raises).
\<close>

definition batch_at :: "sample list \<Rightarrow> nat \<Rightarrow> minibatch" where
  "batch_at file i =
     map (bind_sample input_map) (take test_minibatch_size (drop (i * test_minibatch_size) file))"

definition eval_error_at ::
  "'l framework \<Rightarrow> 'l trainer \<Rightarrow> store \<Rightarrow> sample list \<Rightarrow> nat \<Rightarrow> real" where
  "eval_error_at fw tr st file i =
     (case test_minibatch fw tr st (batch_at file i) of Inl e \<Rightarrow> 0 | Inr (a, tr', st') \<Rightarrow> a)"

subsection \<open>Binary cross-entropy, as the spec words it\<close>

text \<open>
  The spec's per-sample loss for a target \<open>y\<close> and a model output \<open>p\<close>:
  \<open>loss = -[y log(p) + (1 - y) log(1 - p)]\<close>. The loss that \<open>make_trainer\<close> builds from
  the source is compared with it below.
\<close>

definition binary_cross_entropy :: "real \<Rightarrow> real \<Rightarrow> real" where
  "binary_cross_entropy y p = - (y * ln p + (1 - y) * ln (1 - p))"

subsection \<open>Comparing two images (cells 32 and 36)\<close>

text \<open>
  \<open>model.eval([img])\<close> evaluates a graph with its input variable bound to one image.
\<close>

definition model_eval :: "'l framework \<Rightarrow> store \<Rightarrow> node \<Rightarrow> vec \<Rightarrow> error + vec" where
  "model_eval fw st model img = eval (misclassified fw) st (\<lambda>v. img) model"








subsection \<open>Concrete inputs\<close>

text \<open>
  A framework instance whose metric counts an output as an error when it differs from the
  target and whose learner leaves the parameters as they are; a store of zeros; the notebook's
  globals as cells 5 and 21 initialise them.
\<close>

definition fw0 :: "unit framework" where
  "fw0 = \<lparr>misclassified = (\<lambda>p y. p \<noteq> y), adam_sgd = (),
          learner_step = (\<lambda>l st loss data. (l, st))\<rparr>"

definition st0 :: store where
  "st0 = \<lparr>weights = (\<lambda>pid i j. 0), biases = (\<lambda>pid j. 0)\<rparr>"

definition nb0 :: notebook where
  "nb0 = \<lparr>params = st0, next_pid = 0, encoded_model = None, isFast = True\<rparr>"

text \<open>A uniformly grey image labelled as the digit 3, and data files that repeat it.\<close>

definition sample0 :: sample where
  "sample0 = \<lparr>labels_viz = [0, 0, 0, 1, 0, 0, 0, 0, 0, 0], features = replicate 784 128\<rparr>"

definition train_file :: "sample list" where
  "train_file = replicate 60000 sample0"

definition test_file :: "sample list" where
  "test_file = replicate 10000 sample0"

text \<open>A batch of 50 label vectors, alternating the digits 3 and 8.\<close>

definition viz_labels :: "vec list" where
  "viz_labels = concat (replicate 25
     [[0, 0, 0, 1, 0, 0, 0, 0, 0, 0], [0, 0, 0, 0, 0, 0, 0, 0, 1, 0]])"



definition trainer0 :: "unit trainer" where
  "trainer0 = fst (make_trainer fw0 create_model nb0)"

definition reader_train0 :: reader where
  "reader_train0 = create_reader train_file (\<lambda>k. 7 * k + 3) True"

definition reader_test0 :: reader where
  "reader_test0 = create_reader test_file (\<lambda>k. k) False"

definition reader_other0 :: reader where
  "reader_other0 =
     create_reader (take 9984 test_file @ replicate 16 \<lparr>labels_viz = [], features = []\<rparr>)
       (\<lambda>k. k) False"

section \<open>Properties\<close>

subsection \<open>Label grouping\<close>

lemma argmax_scan_less: "best < i \<Longrightarrow> argmax_scan best bv i xs < i + length xs"
  by (induction best bv i xs rule: argmax_scan.induct) auto

lemma np_argmax_less: "np_argmax l = Inr k \<Longrightarrow> k < length l"
  using argmax_scan_less [of 0 1] by (auto simp: np_argmax_def split: list.splits)

lemma np_argmax_defined: "l \<noteq> [] \<Longrightarrow> \<exists>k. np_argmax l = Inr k"
  by (cases l) (simp_all add: np_argmax_def)

lemma img_labels_defined:
  "\<forall>l\<in>set raw. l \<noteq> [] \<Longrightarrow> \<exists>labels. img_labels raw = Inr labels"
proof (induction raw)
  case Nil
  then show ?case by simp
next
  case (Cons l raw)
  then obtain labels where "img_labels raw = Inr labels" by auto
  moreover obtain k where "np_argmax l = Inr k" using Cons.prems np_argmax_defined by auto
  ultimately show ?case by simp
qed

lemma img_labels_nth:
  "img_labels raw = Inr labels \<Longrightarrow>
     length labels = length raw \<and> (\<forall>i<length raw. np_argmax (raw ! i) = Inr (labels ! i))"
proof (induction raw arbitrary: labels)
  case Nil
  then show ?case by simp
next
  case (Cons l raw)
  from Cons.prems obtain k ks where k: "np_argmax l = Inr k" and ks: "img_labels raw = Inr ks"
    and labels: "labels = k # ks"
    by (auto split: sum.splits)
  from Cons.IH [OF ks] have ih: "length ks = length raw"
    "\<forall>i<length raw. np_argmax (raw ! i) = Inr (ks ! i)" by auto
  show ?case using k ih labels by (auto simp: nth_Cons split: nat.splits)
qed

lemma label_dict_loop_eq:
  "label_dict_loop d ps k = d k @ map fst (filter (\<lambda>p. snd p = k) ps)"
  by (induction ps arbitrary: d) auto

lemma label_dict_member:
  "i \<in> set (label_dict labels k) \<longleftrightarrow> i < length labels \<and> labels ! i = k"
  by (auto simp: label_dict_def label_dict_loop_eq in_set_enumerate_eq image_iff)

lemma label_dict_distinct: "distinct (label_dict labels k)"
proof -
  have "distinct (map fst (enumerate 0 labels))" by simp
  then show ?thesis
    unfolding label_dict_def label_dict_loop_eq by (simp add: distinct_map_filter)
qed

lemma count_list_distinct: "distinct xs \<Longrightarrow> x \<in> set xs \<Longrightarrow> count_list xs x = 1"
  by (induction xs) auto

lemma one_hot_nonempty: "one_hot c l \<Longrightarrow> 0 < c \<Longrightarrow> l \<noteq> []"
  by (auto simp: one_hot_def)

text \<open>
  Claim C8. For a batch of 50 samples whose label vectors are one-hot over 10 classes, taking
  the arg-max of every label vector succeeds, and the grouping built from it partitions the
  sample indices: every index below 50 occurs exactly once in the group of one class below 10
  and in no other group, and the ten groups together hold exactly the indices 0..49.
\<close>

theorem label_dict_partitions:
  assumes len: "length imglabel_raw = 50"
    and hot: "list_all (one_hot 10) imglabel_raw"
  shows "\<exists>labels. img_labels imglabel_raw = Inr labels \<and>
           (\<forall>i<50. \<exists>k<10. count_list (label_dict labels k) i = 1 \<and>
                      (\<forall>k'. k' \<noteq> k \<longrightarrow> i \<notin> set (label_dict labels k'))) \<and>
           (\<Union>k<10. set (label_dict labels k)) = {0..<50}"
proof -
  from hot have "\<forall>l\<in>set imglabel_raw. l \<noteq> []"
    by (fastforce simp: one_hot_def list_all_iff)
  then obtain labels where labels: "img_labels imglabel_raw = Inr labels"
    using img_labels_defined by blast
  from img_labels_nth [OF labels] len have n: "length labels = 50"
    and am: "\<And>i. i < 50 \<Longrightarrow> np_argmax (imglabel_raw ! i) = Inr (labels ! i)" by auto
  have bound: "labels ! i < 10" if "i < 50" for i
  proof -
    from that len have "imglabel_raw ! i \<in> set imglabel_raw" by simp
    with hot have "length (imglabel_raw ! i) = 10" by (auto simp: one_hot_def list_all_iff)
    with np_argmax_less [OF am [OF that]] show ?thesis by simp
  qed
  have once: "count_list (label_dict labels (labels ! i)) i = 1" if "i < 50" for i
    using that n label_dict_distinct [of labels "labels ! i"]
    by (simp add: count_list_distinct label_dict_member)
  have one: "\<forall>i<50. \<exists>k<10. count_list (label_dict labels k) i = 1 \<and>
                      (\<forall>k'. k' \<noteq> k \<longrightarrow> i \<notin> set (label_dict labels k'))"
    using bound once n by (auto simp: label_dict_member)
  have "(\<Union>k<10. set (label_dict labels k)) = {0..<50}"
    using bound n by (auto simp: label_dict_member)
  with labels one show ?thesis by blast
qed

theorem label_dict_partitions_witness:
  "length viz_labels = 50 \<and> list_all (one_hot 10) viz_labels \<and>
   (\<exists>labels. img_labels viz_labels = Inr labels \<and>
           (\<forall>i<50. \<exists>k<10. count_list (label_dict labels k) i = 1 \<and>
                      (\<forall>k'. k' \<noteq> k \<longrightarrow> i \<notin> set (label_dict labels k'))) \<and>
           (\<Union>k<10. set (label_dict labels k)) = {0..<50})"
proof -
  have l: "length viz_labels = 50" by (simp add: viz_labels_def length_concat sum_list_replicate)
  have h: "list_all (one_hot 10) viz_labels"
    by (simp add: viz_labels_def one_hot_def list_all_iff)
  from l h label_dict_partitions [OF l h] show ?thesis by blast
qed

subsection \<open>Cosine similarity\<close>

lemma and_then_simps [simp]:
  "and_then (Inl e) f = Inl e" "and_then (Inr x) f = f x"
  by (simp_all add: and_then_def)



















subsection \<open>Model construction\<close>

lemma length_dense_out [simp]: "length (dense_out st pid n a v) = n"
  by (simp add: dense_out_def)

lemma create_model_eq:
  "create_model f s =
     (Dense (Suc (next_pid s)) input_dim Sigmoid
        (Dense (next_pid s) encoding_dim Relu (Div_const f 255)),
      s\<lparr>next_pid := Suc (Suc (next_pid s))\<rparr>)"
  by (simp add: create_model_def dense_layer_def)

lemma create_deep_model_eq:
  "create_deep_model f s =
     (Dense (next_pid s + 5) input_dim Sigmoid
        (Dense (next_pid s + 4) 128 Relu
           (Dense (next_pid s + 3) 64 Relu
              (Dense (next_pid s + 2) 32 Relu
                 (Dense (next_pid s + 1) 64 Relu
                    (Dense (next_pid s) 128 Relu (Const_times (1 / 255) f)))))),
      s\<lparr>next_pid := next_pid s + 6,
        encoded_model :=
          Some (Dense (next_pid s + 2) 32 Relu
                  (Dense (next_pid s + 1) 64 Relu
                     (Dense (next_pid s) 128 Relu (Const_times (1 / 255) f))))\<rparr>)"
proof -
  have "p + 2 = Suc (Suc p)" "p + 3 = Suc (Suc (Suc p))" "p + 4 = Suc (Suc (Suc (Suc p)))"
    "p + 5 = Suc (Suc (Suc (Suc (Suc p))))" "p + 6 = Suc (Suc (Suc (Suc (Suc (Suc p)))))"
    for p :: nat by simp_all
  then show ?thesis
    by (simp add: create_deep_model_def dense_layer_def encoding_dims_def decoding_dims_def
        Let_def)
qed

text \<open>
  Claim C10. \<open>create_deep_model\<close> binds the global \<open>encoded_model\<close> to the encoder prefix
  of the model it returns (the three rectified-linear layers over the rescaled input), whatever
  the global held before: after a second call it holds the prefix of the second model, whose
  parameters are new. \<open>create_model\<close> leaves the global as it was, so from the initial
  notebook, where it is \<open>None\<close>, it is still \<open>None\<close> after the simple model has been built.
\<close>

theorem encoded_model_side_effect:
  "encoded_model (snd (create_deep_model f s)) =
     Some (Dense (next_pid s + 2) 32 Relu
             (Dense (next_pid s + 1) 64 Relu
                (Dense (next_pid s) 128 Relu (Const_times (1 / 255) f))))
   \<and> fst (create_deep_model f s) =
       Dense (next_pid s + 5) input_dim Sigmoid
         (Dense (next_pid s + 4) 128 Relu
            (Dense (next_pid s + 3) 64 Relu
               (Dense (next_pid s + 2) 32 Relu
                  (Dense (next_pid s + 1) 64 Relu
                     (Dense (next_pid s) 128 Relu (Const_times (1 / 255) f))))))
   \<and> encoded_model (snd (create_deep_model g (snd (create_deep_model f s)))) =
       Some (Dense (next_pid s + 8) 32 Relu
               (Dense (next_pid s + 7) 64 Relu
                  (Dense (next_pid s + 6) 128 Relu (Const_times (1 / 255) g))))
   \<and> encoded_model (snd (create_model f s)) = encoded_model s
   \<and> encoded_model nb0 = None
   \<and> encoded_model (snd (create_model f nb0)) = None"
  by (simp add: create_deep_model_eq create_model_eq nb0_def)

lemma deep_encoder_eval:
  assumes "length img = d"
  shows "\<exists>v. eval ce st (\<lambda>x. img)
                (Dense (p + 2) 32 Relu
                   (Dense (p + 1) 64 Relu
                      (Dense p 128 Relu (Const_times (1 / 255) (Input V_input d))))) = Inr v
           \<and> length v = 32"
  using assms by simp

text \<open>
  Claim C3, as amended. After the deep model has been constructed, its bottleneck is
  retrievable through the global \<open>encoded_model\<close>, and for every input of 784 components,
  under any parameter values, it evaluates to a vector of exactly K = 32 components, the last
  of the encoding widths and less than D = 784. The simple model is not part of the statement:
  \<open>create_model\<close> returns the reconstruction only and binds no handle to its bottleneck.
\<close>

theorem deep_bottleneck_width:
  assumes "length img = input_dim"
  shows "\<exists>enc v. encoded_model (snd (create_deep_model (Input V_input input_dim) s)) = Some enc
           \<and> model_eval fw st enc img = Inr v \<and> length v = 32 \<and> 32 < input_dim
           \<and> last encoding_dims = 32"
  using deep_encoder_eval [OF assms]
  by (simp add: create_deep_model_eq model_eval_def input_dim_def encoding_dims_def)

text \<open>The bottleneck of the deep model, evaluated on the grey image.\<close>

theorem deep_bottleneck_width_witness:
  "length (features sample0) = input_dim \<and>
   (\<exists>enc v. encoded_model (snd (create_deep_model (Input V_input input_dim) nb0)) = Some enc
           \<and> model_eval fw0 st0 enc (features sample0) = Inr v \<and> length v = 32)"
proof -
  have h: "length (features sample0) = input_dim" by (simp add: sample0_def input_dim_def)
  from deep_bottleneck_width [OF h, of nb0 fw0 st0] h show ?thesis by blast
qed

text \<open>
  Claim C3 as stated fails for the simple model: after \<open>create_model\<close> the global
  \<open>encoded_model\<close> is still \<open>None\<close>, and the one node the call returns is the
  reconstruction, of 784 components.
\<close>

theorem shallow_bottleneck_counterexample:
  "encoded_model (snd (create_model (Input V_input input_dim) nb0)) = None \<and>
   shape (fst (create_model (Input V_input input_dim) nb0)) = 784"
  by (simp add: create_model_eq nb0_def input_dim_def)


subsection \<open>Dimension mismatch in the comparison\<close>













subsection \<open>The loss\<close>

lemma sigmoid_range: "0 < act Sigmoid x \<and> act Sigmoid x < 1"
proof -
  have "0 < exp (- x)" by simp
  then show ?thesis by (simp add: field_simps add_pos_pos)
qed

lemma dense_sigmoid_range: "list_all (\<lambda>q. 0 < q \<and> q < 1) (dense_out st pid n Sigmoid v)"
  using sigmoid_range by (simp add: dense_out_def list_all_iff del: act.simps)

lemma bce_lists:
  "length y = length p \<Longrightarrow>
     map uminus (map2 (+) (map2 (*) y (map ln p))
                          (map2 (*) (map (\<lambda>a. 1 - a) y) (map ln (map (\<lambda>a. 1 - a) p))))
     = map2 binary_cross_entropy y p"
  by (induction y p rule: list_induct2) (simp_all add: binary_cross_entropy_def)

text \<open>The loss graph over a model whose last layer is a sigmoid layer.\<close>

lemma loss_eval:
  assumes x: "eval ce st env x = Inr u"
    and lab: "length (env V_label) = n"
  shows "eval ce st env
           (Negate (Add (Element_times (Div_const (Input V_label n) 255)
                                        (Log (Dense pid n Sigmoid x)))
                        (Element_times (Minus_from 1 (Div_const (Input V_label n) 255))
                                       (Log (Minus_from 1 (Dense pid n Sigmoid x))))))
         = Inr (map2 binary_cross_entropy (map (\<lambda>a. a / 255) (env V_label))
                  (dense_out st pid n Sigmoid u))"
proof -
  let ?p = "dense_out st pid n Sigmoid u"
  let ?y = "map (\<lambda>a. a / 255) (env V_label)"
  have pos: "list_all (\<lambda>a. 0 < a) ?p" and pos': "list_all (\<lambda>a. 0 < a) (map (\<lambda>a. 1 - a) ?p)"
    using dense_sigmoid_range [of st pid n u] by (auto simp: list_all_iff)
  have len: "length ?y = length ?p" using lab by simp
  show ?thesis
    using x lab pos pos' bce_lists [OF len] by (simp add: binary_def)
qed

lemma bind_features: "bind_sample input_map (smp::sample) = (\<lambda>v. features smp)"
  by (rule ext) (simp add: bind_sample_def input_map_def split: var.splits)

lemma make_trainer_shallow:
  "fst (make_trainer fw create_model nb) =
     (let model = Dense (Suc (next_pid nb)) input_dim Sigmoid
                    (Dense (next_pid nb) encoding_dim Relu
                       (Div_const (Input V_input input_dim) 255));
          target = Div_const (Input V_label input_dim) 255
      in \<lparr>tr_model = model,
          tr_loss = Negate (Add (Element_times target (Log model))
                       (Element_times (Minus_from 1 target) (Log (Minus_from 1 model)))),
          tr_metric = Classification_error model target,
          tr_learner = adam_sgd fw,
          previous_minibatch_evaluation_average = 0,
          previous_minibatch_sample_count = 0,
          updates = 0\<rparr>)"
  by (simp add: make_trainer_def create_model_eq Let_def)

lemma make_trainer_deep:
  "fst (make_trainer fw create_deep_model nb) =
     (let model = Dense (next_pid nb + 5) input_dim Sigmoid
        (Dense (next_pid nb + 4) 128 Relu
           (Dense (next_pid nb + 3) 64 Relu
              (Dense (next_pid nb + 2) 32 Relu
                 (Dense (next_pid nb + 1) 64 Relu
                    (Dense (next_pid nb) 128 Relu
                       (Const_times (1 / 255) (Input V_input input_dim)))))));
          target = Div_const (Input V_label input_dim) 255
      in \<lparr>tr_model = model,
          tr_loss = Negate (Add (Element_times target (Log model))
                       (Element_times (Minus_from 1 target) (Log (Minus_from 1 model)))),
          tr_metric = Classification_error model target,
          tr_learner = adam_sgd fw,
          previous_minibatch_evaluation_average = 0,
          previous_minibatch_sample_count = 0,
          updates = 0\<rparr>)"
  by (simp add: make_trainer_def create_deep_model_eq Let_def)

text \<open>Either model is a sigmoid layer of width \<open>input_dim\<close> over a part that evaluates.\<close>

lemma model_shape:
  assumes mf: "model_func = create_model \<or> model_func = create_deep_model"
    and len: "length (features (smp::sample)) = input_dim"
  shows "\<exists>pid x u. tr_model (fst (make_trainer fw model_func nb)) = Dense pid input_dim Sigmoid x
           \<and> tr_loss (fst (make_trainer fw model_func nb)) =
               Negate (Add (Element_times (Div_const (Input V_label input_dim) 255)
                                          (Log (Dense pid input_dim Sigmoid x)))
                        (Element_times (Minus_from 1 (Div_const (Input V_label input_dim) 255))
                                       (Log (Minus_from 1 (Dense pid input_dim Sigmoid x)))))
           \<and> tr_metric (fst (make_trainer fw model_func nb)) =
               Classification_error (Dense pid input_dim Sigmoid x)
                 (Div_const (Input V_label input_dim) 255)
           \<and> eval ce st (\<lambda>v. features smp) x = Inr u"
  using mf
proof
  assume "model_func = create_model"
  then show ?thesis using len by (simp add: make_trainer_shallow Let_def)
next
  assume "model_func = create_deep_model"
  then show ?thesis using len by (simp add: make_trainer_deep Let_def)
qed

lemma make_trainer_model:
  "tr_model (fst (make_trainer fw model_func s)) = fst (model_func (Input V_input input_dim) s)"
  by (simp add: make_trainer_def Let_def split: prod.splits)

text \<open>
  Claim C7. For the simple and the deep model alike, under any parameter values (so in every
  training step) and for every sample of 784 pixels, the model output \<open>p\<close> is a vector of
  sigmoid values strictly between 0 and 1, and the loss the trainer is given evaluates,
  component by component, to the binary cross-entropy \<open>-(y log p + (1 - y) log (1 - p))\<close>
  between \<open>p\<close> and the target \<open>y\<close>, the sample's own pixels divided by 255.
\<close>

theorem loss_is_binary_cross_entropy:
  assumes mf: "model_func = create_model \<or> model_func = create_deep_model"
    and len: "length (features (smp::sample)) = input_dim"
  shows "\<exists>p. eval (misclassified fw) st (bind_sample input_map smp)
               (tr_model (fst (make_trainer fw model_func nb))) = Inr p
           \<and> length p = input_dim \<and> list_all (\<lambda>q. 0 < q \<and> q < 1) p
           \<and> eval (misclassified fw) st (bind_sample input_map smp)
               (tr_loss (fst (make_trainer fw model_func nb)))
             = Inr (map2 binary_cross_entropy (map (\<lambda>a. a / 255) (features smp)) p)"
proof -
  from model_shape [OF mf len, of fw nb "misclassified fw" st]
  obtain pid x u where
    m: "tr_model (fst (make_trainer fw model_func nb)) = Dense pid input_dim Sigmoid x"
    and l: "tr_loss (fst (make_trainer fw model_func nb)) =
               Negate (Add (Element_times (Div_const (Input V_label input_dim) 255)
                                          (Log (Dense pid input_dim Sigmoid x)))
                        (Element_times (Minus_from 1 (Div_const (Input V_label input_dim) 255))
                                       (Log (Minus_from 1 (Dense pid input_dim Sigmoid x)))))"
    and x: "eval (misclassified fw) st (\<lambda>v. features smp) x = Inr u"
    by blast
  let ?p = "dense_out st pid input_dim Sigmoid u"
  have "eval (misclassified fw) st (bind_sample input_map smp)
          (tr_model (fst (make_trainer fw model_func nb))) = Inr ?p"
    using x by (simp add: m bind_features)
  moreover have "length ?p = input_dim" by simp
  moreover have "list_all (\<lambda>q. 0 < q \<and> q < 1) ?p" by (rule dense_sigmoid_range)
  moreover have "eval (misclassified fw) st (bind_sample input_map smp)
          (tr_loss (fst (make_trainer fw model_func nb)))
        = Inr (map2 binary_cross_entropy (map (\<lambda>a. a / 255) (features smp)) ?p)"
    unfolding l bind_features using loss_eval [OF x, of input_dim pid] len by simp
  ultimately show ?thesis by blast
qed

text \<open>The loss of the simple model on the grey image.\<close>

theorem loss_is_binary_cross_entropy_witness:
  "length (features sample0) = input_dim \<and>
   (\<exists>p. eval (misclassified fw0) st0 (bind_sample input_map sample0)
               (tr_model (fst (make_trainer fw0 create_model nb0))) = Inr p
           \<and> length p = input_dim \<and> list_all (\<lambda>q. 0 < q \<and> q < 1) p
           \<and> eval (misclassified fw0) st0 (bind_sample input_map sample0)
               (tr_loss (fst (make_trainer fw0 create_model nb0)))
             = Inr (map2 binary_cross_entropy (map (\<lambda>a. a / 255) (features sample0)) p))"
proof -
  have h: "length (features sample0) = input_dim" by (simp add: sample0_def input_dim_def)
  have m: "create_model = create_model \<or> create_model = create_deep_model" by simp
  from loss_is_binary_cross_entropy [OF m h, of fw0 st0 nb0] h show ?thesis by blast
qed

subsection \<open>The error metric on a minibatch\<close>

lemma metric_eval:
  assumes mf: "model_func = create_model \<or> model_func = create_deep_model"
    and len: "length (features (smp::sample)) = input_dim"
  shows "\<exists>b. eval ce st (\<lambda>v. features smp) (tr_metric (fst (make_trainer fw model_func nb)))
               = Inr [b] \<and> 0 \<le> b \<and> b \<le> 1"
proof -
  from model_shape [OF mf len, of fw nb ce st]
  obtain pid x u where
    m: "tr_metric (fst (make_trainer fw model_func nb)) =
          Classification_error (Dense pid input_dim Sigmoid x)
            (Div_const (Input V_label input_dim) 255)"
    and x: "eval ce st (\<lambda>v. features smp) x = Inr u"
    by blast
  show ?thesis using x len by (simp add: m)
qed

text \<open>
  In the lemmas below a metric node is fit for the 784-pixel samples when it evaluates to one
  number between 0 and 1; \<open>metric_eval\<close> shows that of the metric of either model.
\<close>

lemma metric_sum_ok:
  assumes fit: "\<And>smp::sample. length (features smp) = input_dim \<Longrightarrow>
                  \<exists>b. eval ce st (\<lambda>v. features smp) m = Inr [b] \<and> 0 \<le> b \<and> b \<le> 1"
    and ok: "list_all (\<lambda>s. length (features s) = input_dim) batch"
  shows "\<exists>t. metric_sum ce st m (map (bind_sample input_map) batch) = Inr t
           \<and> 0 \<le> t \<and> t \<le> real (length batch)"
  using ok
proof (induction batch)
  case Nil
  then show ?case by simp
next
  case (Cons s batch)
  then obtain t where t: "metric_sum ce st m (map (bind_sample input_map) batch) = Inr t"
    "0 \<le> t" "t \<le> real (length batch)" by auto
  from Cons.prems fit [of s] obtain b where
    b: "eval ce st (\<lambda>v. features s) m = Inr [b]" "0 \<le> b" "b \<le> 1" by auto
  show ?case using t b by (simp add: bind_features [of s])
qed

lemma metric_average_ok:
  assumes fit: "\<And>smp::sample. length (features smp) = input_dim \<Longrightarrow>
                  \<exists>b. eval ce st (\<lambda>v. features smp) m = Inr [b] \<and> 0 \<le> b \<and> b \<le> 1"
    and ok: "list_all (\<lambda>s. length (features s) = input_dim) batch"
    and ne: "batch \<noteq> []"
  shows "\<exists>a. metric_average ce st m (map (bind_sample input_map) batch) = Inr a
           \<and> 0 \<le> a \<and> a \<le> 1"
proof -
  from metric_sum_ok [OF fit ok] obtain t where
    t: "metric_sum ce st m (map (bind_sample input_map) batch) = Inr t"
    "0 \<le> t" "t \<le> real (length batch)" by blast
  have "0 < real (length batch)" using ne by simp
  then have "0 \<le> t / real (length batch) \<and> t / real (length batch) \<le> 1"
    using t by (simp add: divide_le_eq)
  then show ?thesis using t ne by (simp add: metric_average_def)
qed

lemma draw_training:
  assumes "rd_training r" "rd_samples r \<noteq> []"
  shows "length (draw r n) = n \<and> set (draw r n) \<subseteq> set (rd_samples r)"
  using assms by (auto simp: draw_def)

lemma draw_test: "\<not> rd_training r \<Longrightarrow> draw r n = take n (drop (rd_pos r) (rd_samples r))"
  by (simp add: draw_def)

subsection \<open>Training\<close>

lemma train_minibatch_ok:
  assumes fit: "\<And>st (smp::sample). length (features smp) = input_dim \<Longrightarrow>
                  \<exists>b. eval (misclassified fw) st (\<lambda>v. features smp) (tr_metric tr) = Inr [b]
                      \<and> 0 \<le> b \<and> b \<le> 1"
    and ok: "list_all (\<lambda>s. length (features s) = input_dim) batch"
    and ne: "batch \<noteq> []"
  shows "\<exists>a l' st'. train_minibatch fw tr st (map (bind_sample input_map) batch) =
           Inr (tr\<lparr>tr_learner := l',
                   previous_minibatch_evaluation_average := a,
                   previous_minibatch_sample_count := length batch,
                   updates := Suc (updates tr)\<rparr>, st') \<and> 0 \<le> a \<and> a \<le> 1"
proof -
  from metric_average_ok [OF fit ok ne, of st] obtain a where
    a: "metric_average (misclassified fw) st (tr_metric tr) (map (bind_sample input_map) batch)
          = Inr a" "0 \<le> a" "a \<le> 1" by blast
  obtain l' st' where
    "learner_step fw (tr_learner tr) st (tr_loss tr) (map (bind_sample input_map) batch)
       = (l', st')" by (cases "learner_step fw (tr_learner tr) st (tr_loss tr)
                                 (map (bind_sample input_map) batch)")
  with a have "train_minibatch fw tr st (map (bind_sample input_map) batch) =
           Inr (tr\<lparr>tr_learner := l',
                   previous_minibatch_evaluation_average := a,
                   previous_minibatch_sample_count := length batch,
                   updates := Suc (updates tr)\<rparr>, st')"
    by (simp add: train_minibatch_def)
  with a show ?thesis by blast
qed

lemma train_loop_spec:
  assumes fit: "\<And>st (smp::sample). length (features smp) = input_dim \<Longrightarrow>
                  \<exists>b. eval (misclassified fw) st (\<lambda>v. features smp) m = Inr [b]
                      \<and> 0 \<le> b \<and> b \<le> 1"
    and m: "tr_metric tr = m"
    and training: "rd_training rd" and ne: "rd_samples rd \<noteq> []"
    and ok: "list_all (\<lambda>s. length (features s) = input_dim) (rd_samples rd)"
    and pp: "0 \<le> metric_since_start pp" "metric_since_start pp \<le> real (samples_since_start pp)"
  shows "\<exists>rd' tr' st' pp'. train_loop fw k (rd, tr, st, pp) = Inr (rd', tr', st', pp')
           \<and> rd_pos rd' = rd_pos rd + k * minibatch_size
           \<and> updates tr' = updates tr + k
           \<and> tr_model tr' = tr_model tr \<and> tr_metric tr' = tr_metric tr
           \<and> samples_since_start pp' = samples_since_start pp + k * minibatch_size
           \<and> 0 \<le> metric_since_start pp'
           \<and> metric_since_start pp' \<le> real (samples_since_start pp')"
  using m training ne ok pp
proof (induction k arbitrary: rd tr st pp)
  case 0
  then show ?case by simp
next
  case (Suc k)
  let ?batch = "draw rd minibatch_size"
  from draw_training [OF Suc.prems(2,3), of minibatch_size]
  have len: "length ?batch = minibatch_size" and sub: "set ?batch \<subseteq> set (rd_samples rd)"
    by auto
  from len have bne: "?batch \<noteq> []" by (auto simp: minibatch_size_def)
  from sub Suc.prems(4) have bok: "list_all (\<lambda>s. length (features s) = input_dim) ?batch"
    by (auto simp: list_all_iff)
  from fit Suc.prems(1) have fit': "\<And>st (smp::sample). length (features smp) = input_dim \<Longrightarrow>
                  \<exists>b. eval (misclassified fw) st (\<lambda>v. features smp) (tr_metric tr) = Inr [b]
                      \<and> 0 \<le> b \<and> b \<le> 1" by simp
  from train_minibatch_ok [OF fit' bok bne, of st] obtain a l' st' where
    step: "train_minibatch fw tr st (map (bind_sample input_map) ?batch) =
           Inr (tr\<lparr>tr_learner := l',
                   previous_minibatch_evaluation_average := a,
                   previous_minibatch_sample_count := length ?batch,
                   updates := Suc (updates tr)\<rparr>, st')" and a: "0 \<le> a" "a \<le> 1"
    by blast
  define rd1 where "rd1 = rd\<lparr>rd_pos := rd_pos rd + minibatch_size\<rparr>"
  define tr1 where "tr1 = tr\<lparr>tr_learner := l',
                   previous_minibatch_evaluation_average := a,
                   previous_minibatch_sample_count := minibatch_size,
                   updates := Suc (updates tr)\<rparr>"
  define pp1 where "pp1 = pp\<lparr>samples_since_start := samples_since_start pp + minibatch_size,
                   metric_since_start := metric_since_start pp + a * real minibatch_size\<rparr>"
  have upd: "update_with_trainer pp tr1 = pp1"
    by (simp add: update_with_trainer_def tr1_def pp1_def minibatch_size_def)
  have unfold: "train_loop fw (Suc k) (rd, tr, st, pp) = train_loop fw k (rd1, tr1, st', pp1)"
    using step len upd by (simp add: next_minibatch_def rd1_def tr1_def)
  have p1: "0 \<le> metric_since_start pp1"
    using Suc.prems(5) a by (simp add: pp1_def)
  have "a * real minibatch_size \<le> real minibatch_size"
    using a by (simp add: mult_left_le_one_le)
  then have p2: "metric_since_start pp1 \<le> real (samples_since_start pp1)"
    using Suc.prems(6) by (simp add: pp1_def)
  have "\<exists>rd' tr' st'' pp'. train_loop fw k (rd1, tr1, st', pp1) = Inr (rd', tr', st'', pp')
           \<and> rd_pos rd' = rd_pos rd1 + k * minibatch_size
           \<and> updates tr' = updates tr1 + k
           \<and> tr_model tr' = tr_model tr1 \<and> tr_metric tr' = tr_metric tr1
           \<and> samples_since_start pp' = samples_since_start pp1 + k * minibatch_size
           \<and> 0 \<le> metric_since_start pp'
           \<and> metric_since_start pp' \<le> real (samples_since_start pp')"
    using Suc.prems(1-4) p1 p2 by (intro Suc.IH) (simp_all add: rd1_def tr1_def)
  then show ?case unfolding unfold by (auto simp: rd1_def tr1_def pp1_def)
qed

lemma num_minibatches_to_train_fast: "num_minibatches_to_train True = 4687"
  by (simp add: num_minibatches_to_train_def num_samples_per_sweep_def
      num_sweeps_to_train_with_def minibatch_size_def)

lemma num_minibatches_to_train_pos: "0 < num_minibatches_to_train fast"
  by (simp add: num_minibatches_to_train_def num_samples_per_sweep_def
      num_sweeps_to_train_with_def minibatch_size_def)

lemma training_phase_spec:
  assumes fit: "\<And>st (smp::sample). length (features smp) = input_dim \<Longrightarrow>
                  \<exists>b. eval (misclassified fw) st (\<lambda>v. features smp) (tr_metric tr) = Inr [b]
                      \<and> 0 \<le> b \<and> b \<le> 1"
    and training: "rd_training rd" and ne: "rd_samples rd \<noteq> []"
    and ok: "list_all (\<lambda>s. length (features s) = input_dim) (rd_samples rd)"
  shows "\<exists>rd' tr' st' train_error.
           training_phase fw fast rd tr st = Inr (rd', tr', st', train_error)
           \<and> updates tr' = updates tr + num_minibatches_to_train fast
           \<and> rd_pos rd' = rd_pos rd + num_minibatches_to_train fast * minibatch_size
           \<and> tr_model tr' = tr_model tr \<and> tr_metric tr' = tr_metric tr
           \<and> 0 \<le> train_error \<and> train_error \<le> 100"
proof -
  let ?n = "num_minibatches_to_train fast"
  let ?pp = "\<lparr>metric_since_start = 0, samples_since_start = 0\<rparr>"
  have "\<exists>rd' tr' st' pp'. train_loop fw ?n (rd, tr, st, ?pp) = Inr (rd', tr', st', pp')
           \<and> rd_pos rd' = rd_pos rd + ?n * minibatch_size
           \<and> updates tr' = updates tr + ?n
           \<and> tr_model tr' = tr_model tr \<and> tr_metric tr' = tr_metric tr
           \<and> samples_since_start pp' = samples_since_start ?pp + ?n * minibatch_size
           \<and> 0 \<le> metric_since_start pp'
           \<and> metric_since_start pp' \<le> real (samples_since_start pp')"
    by (rule train_loop_spec [OF fit refl training ne ok]) simp_all
  then obtain rd' tr' st' pp' where
    loop: "train_loop fw ?n (rd, tr, st, ?pp) = Inr (rd', tr', st', pp')"
    and r: "rd_pos rd' = rd_pos rd + ?n * minibatch_size" "updates tr' = updates tr + ?n"
      "tr_model tr' = tr_model tr" "tr_metric tr' = tr_metric tr"
    and n: "samples_since_start pp' = ?n * minibatch_size"
    and b: "0 \<le> metric_since_start pp'" "metric_since_start pp' \<le> real (samples_since_start pp')"
    by auto
  from n num_minibatches_to_train_pos [of fast] have pos: "0 < samples_since_start pp'"
    by (simp add: minibatch_size_def)
  let ?avg = "metric_since_start pp' / real (samples_since_start pp')"
  have avg: "avg_metric_since_start pp' = Inr ?avg"
    using pos by (simp add: avg_metric_since_start_def)
  have "0 \<le> ?avg \<and> ?avg \<le> 1" using pos b by (simp add: divide_le_eq)
  then have "0 \<le> ?avg * 100 \<and> ?avg * 100 \<le> 1 * 100"
    by (intro conjI mult_nonneg_nonneg mult_right_mono) simp_all
  then have "0 \<le> ?avg * 100 \<and> ?avg * 100 \<le> 100" by (simp del: times_divide_eq_left)
  moreover have "training_phase fw fast rd tr st = Inr (rd', tr', st', ?avg * 100)"
    using loop avg by (simp add: training_phase_def)
  ultimately show ?thesis using r by blast
qed

lemma make_trainer_snd:
  assumes "model_func = create_model \<or> model_func = create_deep_model"
  shows "isFast (snd (make_trainer fw model_func s)) = isFast s
       \<and> params (snd (make_trainer fw model_func s)) = params s"
  using assms
  by (auto simp: make_trainer_def create_model_eq create_deep_model_eq Let_def)

lemma make_trainer_updates:
  "updates (fst (make_trainer fw model_func s)) = 0"
  by (simp add: make_trainer_def Let_def split: prod.splits)

text \<open>
  Claim C1, as amended. In fast mode (5 sweeps), on a training reader over a non-empty file of
  784-pixel samples, the training loop of \<open>train_and_test\<close> returns after exactly
  \<open>(60000 * 5) div 64 = 4687\<close> update steps, each on a minibatch of 64 samples, and the
  average training error it reports lies between 0 and 100 percent. The number of steps comes
  from \<open>num_samples_per_sweep = 60000\<close>; the 30000 of \<open>epoch_size\<close> only enters the
  learning rate schedule.
\<close>

theorem training_update_steps:
  assumes mf: "model_func = create_model \<or> model_func = create_deep_model"
    and mk: "make_trainer fw model_func s = (trainer, s1)"
    and fast: "isFast s"
    and training: "rd_training reader_train" and ne: "rd_samples reader_train \<noteq> []"
    and ok: "list_all (\<lambda>smp. length (features smp) = input_dim) (rd_samples reader_train)"
  shows "num_minibatches_to_train (isFast s1) = (60000 * 5) div 64
       \<and> num_minibatches_to_train (isFast s1) = 4687
       \<and> (\<exists>rd tr st train_error.
             training_phase fw (isFast s1) reader_train trainer (params s1)
               = Inr (rd, tr, st, train_error)
             \<and> updates tr = 4687
             \<and> rd_pos rd = rd_pos reader_train + 4687 * 64
             \<and> 0 \<le> train_error \<and> train_error \<le> 100)"
proof -
  from mk have tr: "trainer = fst (make_trainer fw model_func s)"
    and s1: "s1 = snd (make_trainer fw model_func s)" by simp_all
  from make_trainer_snd [OF mf, of fw s] fast s1 have f1: "isFast s1 = True" by simp
  have fit: "\<And>st (smp::sample). length (features smp) = input_dim \<Longrightarrow>
                  \<exists>b. eval (misclassified fw) st (\<lambda>v. features smp) (tr_metric trainer) = Inr [b]
                      \<and> 0 \<le> b \<and> b \<le> 1"
    unfolding tr by (rule metric_eval [OF mf])
  from training_phase_spec [OF fit training ne ok, of True "params s1"]
  obtain rd tr' st train_error where
    "training_phase fw True reader_train trainer (params s1) = Inr (rd, tr', st, train_error)"
    "updates tr' = updates trainer + num_minibatches_to_train True"
    "rd_pos rd = rd_pos reader_train + num_minibatches_to_train True * minibatch_size"
    "0 \<le> train_error" "train_error \<le> 100" by blast
  then show ?thesis
    unfolding f1 using make_trainer_updates [of fw model_func s] tr
    by (simp add: num_minibatches_to_train_fast minibatch_size_def)
qed

text \<open>Training the simple model on the training file.\<close>

theorem training_update_steps_witness:
  "\<exists>rd tr st train_error.
      training_phase fw0 (isFast (snd (make_trainer fw0 create_model nb0))) reader_train0
          (fst (make_trainer fw0 create_model nb0))
          (params (snd (make_trainer fw0 create_model nb0)))
        = Inr (rd, tr, st, train_error)
      \<and> updates tr = 4687
      \<and> rd_pos rd = rd_pos reader_train0 + 4687 * 64
      \<and> 0 \<le> train_error \<and> train_error \<le> 100"
proof -
  have mf: "create_model = create_model \<or> create_model = create_deep_model" by simp
  have mk: "make_trainer fw0 create_model nb0
              = (fst (make_trainer fw0 create_model nb0), snd (make_trainer fw0 create_model nb0))"
    by simp
  have fast: "isFast nb0" by (simp add: nb0_def)
  have training: "rd_training reader_train0" by (simp add: reader_train0_def create_reader_def)
  have ne: "rd_samples reader_train0 \<noteq> []"
    by (simp add: reader_train0_def create_reader_def train_file_def)
  have ok: "list_all (\<lambda>smp. length (features smp) = input_dim) (rd_samples reader_train0)"
    by (simp add: reader_train0_def create_reader_def train_file_def sample0_def input_dim_def
        list_all_iff)
  from training_update_steps [OF mf mk fast training ne ok] show ?thesis by blast
qed

text \<open>
  Claim C1 as stated fails on the number of steps: the loop runs 4687 times, while
  \<open>(30000 * 5) / 64\<close> is 2343.75, or 2343 as an integer quotient.
\<close>

theorem training_steps_counterexample:
  "num_minibatches_to_train True = 4687 \<and> (30000 * 5) div 64 = (2343::nat)
   \<and> num_minibatches_to_train True \<noteq> (30000 * 5) div 64
   \<and> real (num_minibatches_to_train True) \<noteq> (30000 * 5) / 64"
  by (simp add: num_minibatches_to_train_fast)

subsection \<open>Testing\<close>

lemma num_minibatches_to_test_int: "nat \<lfloor>num_minibatches_to_test\<rfloor> = 312"
  by (simp add: num_minibatches_to_test_def num_samples_def test_minibatch_size_def)

lemma test_minibatch_ok:
  assumes fit: "\<And>smp::sample. length (features smp) = input_dim \<Longrightarrow>
                  \<exists>b. eval (misclassified fw) st (\<lambda>v. features smp) (tr_metric tr) = Inr [b]
                      \<and> 0 \<le> b \<and> b \<le> 1"
    and ok: "list_all (\<lambda>s. length (features s) = input_dim) batch"
    and ne: "batch \<noteq> []"
  shows "\<exists>a. test_minibatch fw tr st (map (bind_sample input_map) batch) = Inr (a, tr, st)
           \<and> 0 \<le> a \<and> a \<le> 1"
proof -
  from metric_average_ok [OF fit ok ne] obtain a where
    "metric_average (misclassified fw) st (tr_metric tr) (map (bind_sample input_map) batch)
          = Inr a" "0 \<le> a" "a \<le> 1" by blast
  then show ?thesis by (simp add: test_minibatch_def)
qed

lemma test_minibatch_frame:
  "test_minibatch fw tr st data = Inr (a, tr', st') \<Longrightarrow> tr' = tr \<and> st' = st"
  by (auto simp: test_minibatch_def and_then_def split: sum.splits)

lemma test_loop_frame:
  "test_loop fw k (rd, tr, st, numer, denom) = Inr (rd', tr', st', numer', denom')
     \<Longrightarrow> tr' = tr \<and> st' = st"
proof (induction k arbitrary: rd numer denom)
  case 0
  then show ?case by simp
next
  case (Suc k)
  from Suc.prems obtain a tr1 st1 where
    step: "test_minibatch fw tr st
             (fst (next_minibatch rd test_minibatch_size input_map)) = Inr (a, tr1, st1)"
    and rest: "test_loop fw k (snd (next_minibatch rd test_minibatch_size input_map), tr1, st1,
                 numer + \<bar>a * real test_minibatch_size\<bar>, denom + test_minibatch_size)
               = Inr (rd', tr', st', numer', denom')"
    by (auto split: prod.splits sum.splits)
  from test_minibatch_frame [OF step] have "tr1 = tr" "st1 = st" by simp_all
  with rest Suc.IH show ?case by blast
qed

lemma take_drop_subset:
  assumes "m + n \<le> k"
  shows "set (take n (drop m xs)) \<subseteq> set (take k xs)"
proof -
  have "take n (drop m xs) = drop m (take (m + n) xs)" by (simp add: drop_take)
  then have "set (take n (drop m xs)) \<subseteq> set (take (m + n) xs)"
    by (simp add: set_drop_subset)
  also have "\<dots> \<subseteq> set (take k xs)" using assms by (rule set_take_subset_set_take)
  finally show ?thesis .
qed

lemma test_loop_spec:
  assumes fit: "\<And>smp::sample. length (features smp) = input_dim \<Longrightarrow>
                  \<exists>b. eval (misclassified fw) st (\<lambda>v. features smp) (tr_metric tr) = Inr [b]
                      \<and> 0 \<le> b \<and> b \<le> 1"
    and eval_mode: "\<not> rd_training rd"
    and pos: "rd_pos rd = j * test_minibatch_size"
    and len: "(j + k) * test_minibatch_size \<le> length (rd_samples rd)"
    and ok: "list_all (\<lambda>s. length (features s) = input_dim)
               (take ((j + k) * test_minibatch_size) (rd_samples rd))"
  shows "test_loop fw k (rd, tr, st, numer, denom) =
           Inr (rd\<lparr>rd_pos := (j + k) * test_minibatch_size\<rparr>, tr, st,
                numer + (\<Sum>i<k. eval_error_at fw tr st (rd_samples rd) (j + i)
                                * real test_minibatch_size),
                denom + k * test_minibatch_size)"
  using eval_mode pos len ok
proof (induction k arbitrary: rd j numer denom)
  case 0
  then show ?case by simp
next
  case (Suc k)
  let ?file = "rd_samples rd"
  let ?batch = "take test_minibatch_size (drop (j * test_minibatch_size) ?file)"
  have dr: "draw rd test_minibatch_size = ?batch"
    using Suc.prems(1,2) by (simp add: draw_test)
  have "(j + Suc k) * test_minibatch_size = j * test_minibatch_size + test_minibatch_size
          + k * test_minibatch_size" by (simp add: algebra_simps)
  with Suc.prems(3) have "j * test_minibatch_size + test_minibatch_size \<le> length ?file"
    by linarith
  then have blen: "length ?batch = test_minibatch_size" by simp
  then have bne: "?batch \<noteq> []" by (auto simp: test_minibatch_size_def)
  have "set ?batch \<subseteq> set (take ((j + Suc k) * test_minibatch_size) ?file)"
    by (rule take_drop_subset) simp
  with Suc.prems(4) have bok: "list_all (\<lambda>s. length (features s) = input_dim) ?batch"
    by (auto simp: list_all_iff)
  from test_minibatch_ok [OF fit bok bne] obtain a where
    a: "test_minibatch fw tr st (map (bind_sample input_map) ?batch) = Inr (a, tr, st)"
    "0 \<le> a" by blast
  then have ea: "eval_error_at fw tr st ?file j = a"
    by (simp add: eval_error_at_def batch_at_def)
  define rd1 where "rd1 = rd\<lparr>rd_pos := Suc j * test_minibatch_size\<rparr>"
  have nm: "next_minibatch rd test_minibatch_size input_map
              = (map (bind_sample input_map) ?batch, rd1)"
    using dr blen Suc.prems(2) by (simp add: next_minibatch_def rd1_def)
  have abs_a: "\<bar>a * real test_minibatch_size\<bar> = a * real test_minibatch_size"
    using a(2) by simp
  have unfold: "test_loop fw (Suc k) (rd, tr, st, numer, denom)
      = test_loop fw k (rd1, tr, st, numer + a * real test_minibatch_size,
                        denom + test_minibatch_size)"
    using nm a(1) abs_a by simp
  have ih: "test_loop fw k (rd1, tr, st, numer + a * real test_minibatch_size,
                        denom + test_minibatch_size) =
           Inr (rd1\<lparr>rd_pos := (Suc j + k) * test_minibatch_size\<rparr>, tr, st,
                numer + a * real test_minibatch_size
                  + (\<Sum>i<k. eval_error_at fw tr st (rd_samples rd1) (Suc j + i)
                                * real test_minibatch_size),
                denom + test_minibatch_size + k * test_minibatch_size)"
    using Suc.prems by (intro Suc.IH) (simp_all add: rd1_def)
  have sum_shift: "(\<Sum>i<Suc k. eval_error_at fw tr st ?file (j + i) * real test_minibatch_size)
      = a * real test_minibatch_size
        + (\<Sum>i<k. eval_error_at fw tr st ?file (Suc j + i) * real test_minibatch_size)"
    by (subst sum.lessThan_Suc_shift) (simp add: ea)
  show ?case unfolding unfold ih sum_shift by (simp add: rd1_def)
qed

lemma tms [simp]: "test_minibatch_size = 32"
  by (simp add: test_minibatch_size_def)

lemma batch_at_ok:
  assumes fit: "\<And>smp::sample. length (features smp) = input_dim \<Longrightarrow>
                  \<exists>b. eval (misclassified fw) st (\<lambda>v. features smp) (tr_metric tr) = Inr [b]
                      \<and> 0 \<le> b \<and> b \<le> 1"
    and len: "Suc i * 32 \<le> length file"
    and ok: "list_all (\<lambda>s. length (features s) = input_dim) (take (Suc i * 32) file)"
  shows "test_minibatch fw tr st (batch_at file i) = Inr (eval_error_at fw tr st file i, tr, st)
       \<and> 0 \<le> eval_error_at fw tr st file i \<and> eval_error_at fw tr st file i \<le> 1"
proof -
  let ?batch = "take 32 (drop (i * 32) file)"
  have "length ?batch = 32" using len by simp
  then have bne: "?batch \<noteq> []" by auto
  have "set ?batch \<subseteq> set (take (Suc i * 32) file)" by (rule take_drop_subset) simp
  with ok have bok: "list_all (\<lambda>s. length (features s) = input_dim) ?batch"
    by (auto simp: list_all_iff)
  from test_minibatch_ok [OF fit bok bne] obtain a where
    "test_minibatch fw tr st (map (bind_sample input_map) ?batch) = Inr (a, tr, st)"
    "0 \<le> a" "a \<le> 1" by blast
  then show ?thesis by (simp add: eval_error_at_def batch_at_def)
qed

lemma testing_phase_spec:
  assumes fit: "\<And>smp::sample. length (features smp) = input_dim \<Longrightarrow>
                  \<exists>b. eval (misclassified fw) st (\<lambda>v. features smp) (tr_metric tr) = Inr [b]
                      \<and> 0 \<le> b \<and> b \<le> 1"
    and eval_mode: "\<not> rd_training rd"
    and pos: "rd_pos rd = 0"
    and len: "9984 \<le> length (rd_samples rd)"
    and ok: "list_all (\<lambda>s. length (features s) = input_dim) (take 9984 (rd_samples rd))"
  shows "test_loop fw 312 (rd, tr, st, 0, 0) =
           Inr (rd\<lparr>rd_pos := 9984\<rparr>, tr, st,
                (\<Sum>i<312. eval_error_at fw tr st (rd_samples rd) i * 32), 9984)"
    and "testing_phase fw rd tr st =
           Inr (rd\<lparr>rd_pos := 9984\<rparr>, tr, st,
                (\<Sum>i<312. eval_error_at fw tr st (rd_samples rd) i * 32) * 100 / 9984)"
proof -
  have "test_loop fw 312 (rd, tr, st, 0, 0) =
           Inr (rd\<lparr>rd_pos := (0 + 312) * test_minibatch_size\<rparr>, tr, st,
                0 + (\<Sum>i<312. eval_error_at fw tr st (rd_samples rd) (0 + i)
                                * real test_minibatch_size),
                0 + 312 * test_minibatch_size)"
    using eval_mode pos len ok by (intro test_loop_spec [OF fit]) simp_all
  then show loop: "test_loop fw 312 (rd, tr, st, 0, 0) =
           Inr (rd\<lparr>rd_pos := 9984\<rparr>, tr, st,
                (\<Sum>i<312. eval_error_at fw tr st (rd_samples rd) i * 32), 9984)"
    by simp
  show "testing_phase fw rd tr st =
           Inr (rd\<lparr>rd_pos := 9984\<rparr>, tr, st,
                (\<Sum>i<312. eval_error_at fw tr st (rd_samples rd) i * 32) * 100 / 9984)"
    by (simp add: testing_phase_def num_minibatches_to_test_int loop)
qed

text \<open>
  Claim C2. On a fresh test reader over 10000 samples of 784 pixels, the test loop runs
  \<open>int(10000 / 32) = 312\<close> times. Every call of \<open>test_minibatch\<close> returns the error
  \<open>e i\<close> of the \<open>i\<close>-th batch of 32 samples and leaves trainer and parameters as they
  were; the errors lie between 0 and 1, so the absolute value the loop takes changes nothing.
  The loop ends with the numerator \<open>\<Sum>i<312. e i * 32\<close> and the denominator
  \<open>\<Sum>i<312. 32\<close>, and the one value reported is \<open>100 * numerator / denominator\<close>.
\<close>

theorem test_error_aggregate:
  assumes mf: "model_func = create_model \<or> model_func = create_deep_model"
    and m: "tr_metric tr = tr_metric (fst (make_trainer fw model_func nb))"
    and eval_mode: "\<not> rd_training reader_test" and pos: "rd_pos reader_test = 0"
    and len: "length (rd_samples reader_test) = num_samples"
    and ok: "list_all (\<lambda>smp. length (features smp) = input_dim) (rd_samples reader_test)"
  shows "nat \<lfloor>num_minibatches_to_test\<rfloor> = 312 \<and> \<lfloor>10000 / 32 :: real\<rfloor> = 312
       \<and> (\<exists>e metric_numer metric_denom rd.
            (\<forall>i<312. test_minibatch fw tr st (batch_at (rd_samples reader_test) i)
                        = Inr (e i, tr, st) \<and> 0 \<le> e i \<and> e i \<le> 1)
            \<and> test_loop fw (nat \<lfloor>num_minibatches_to_test\<rfloor>) (reader_test, tr, st, 0, 0)
                = Inr (rd, tr, st, metric_numer, metric_denom)
            \<and> metric_numer = (\<Sum>i<312. e i * 32)
            \<and> metric_denom = (\<Sum>i<312::nat. 32)
            \<and> rd = reader_test\<lparr>rd_pos := 312 * 32\<rparr>
            \<and> testing_phase fw reader_test tr st
                = Inr (rd, tr, st, 100 * metric_numer / real metric_denom))"
proof -
  let ?file = "rd_samples reader_test"
  have fit: "\<And>smp::sample. length (features smp) = input_dim \<Longrightarrow>
                  \<exists>b. eval (misclassified fw) st (\<lambda>v. features smp) (tr_metric tr) = Inr [b]
                      \<and> 0 \<le> b \<and> b \<le> 1"
    unfolding m by (rule metric_eval [OF mf])
  from len have len': "9984 \<le> length ?file" by (simp add: num_samples_def)
  from ok have ok': "list_all (\<lambda>s. length (features s) = input_dim) (take k ?file)" for k
    by (auto simp: list_all_iff dest: in_set_takeD)
  note spec = testing_phase_spec [OF fit eval_mode pos len' ok']
  have each: "\<forall>i<312. test_minibatch fw tr st (batch_at ?file i)
                        = Inr (eval_error_at fw tr st ?file i, tr, st)
                \<and> 0 \<le> eval_error_at fw tr st ?file i \<and> eval_error_at fw tr st ?file i \<le> 1"
  proof (intro allI impI)
    fix i :: nat assume "i < 312"
    then have "Suc i * 32 \<le> length ?file" using len' by simp
    from batch_at_ok [OF fit this ok']
    show "test_minibatch fw tr st (batch_at ?file i)
                        = Inr (eval_error_at fw tr st ?file i, tr, st)
                \<and> 0 \<le> eval_error_at fw tr st ?file i \<and> eval_error_at fw tr st ?file i \<le> 1" .
  qed
  have "\<exists>e metric_numer metric_denom rd.
            (\<forall>i<312. test_minibatch fw tr st (batch_at ?file i)
                        = Inr (e i, tr, st) \<and> 0 \<le> e i \<and> e i \<le> 1)
            \<and> test_loop fw (nat \<lfloor>num_minibatches_to_test\<rfloor>) (reader_test, tr, st, 0, 0)
                = Inr (rd, tr, st, metric_numer, metric_denom)
            \<and> metric_numer = (\<Sum>i<312. e i * 32)
            \<and> metric_denom = (\<Sum>i<312::nat. 32)
            \<and> rd = reader_test\<lparr>rd_pos := 312 * 32\<rparr>
            \<and> testing_phase fw reader_test tr st
                = Inr (rd, tr, st, 100 * metric_numer / real metric_denom)"
    apply (rule exI [of _ "eval_error_at fw tr st ?file"])
    apply (rule exI [of _ "\<Sum>i<312. eval_error_at fw tr st ?file i * 32"])
    apply (rule exI [of _ 9984])
    apply (rule exI [of _ "reader_test\<lparr>rd_pos := 9984\<rparr>"])
    using each spec by (simp add: num_minibatches_to_test_int)
  then show ?thesis by (simp add: num_minibatches_to_test_int)
qed

text \<open>The trainer of the simple model on the test file.\<close>

lemma reader_test0_facts:
  "\<not> rd_training reader_test0" "rd_pos reader_test0 = 0"
  "length (rd_samples reader_test0) = num_samples"
  "list_all (\<lambda>smp. length (features smp) = input_dim) (rd_samples reader_test0)"
  by (simp_all add: reader_test0_def create_reader_def test_file_def num_samples_def
      sample0_def input_dim_def list_all_iff)

lemma trainer0_facts:
  "create_model = create_model \<or> create_model = create_deep_model"
  "tr_metric trainer0 = tr_metric (fst (make_trainer fw0 create_model nb0))"
  by (simp_all add: trainer0_def)

theorem test_error_aggregate_witness:
  "\<exists>(e :: nat \<Rightarrow> real) metric_numer metric_denom rd.
      test_loop fw0 (nat \<lfloor>num_minibatches_to_test\<rfloor>) (reader_test0, trainer0, st0, 0, 0)
                = Inr (rd, trainer0, st0, metric_numer, metric_denom)
            \<and> metric_numer = (\<Sum>i<312. e i * 32)
            \<and> metric_denom = (\<Sum>i<312::nat. 32)
            \<and> testing_phase fw0 reader_test0 trainer0 st0
                = Inr (rd, trainer0, st0, 100 * metric_numer / real metric_denom)"
  using test_error_aggregate [OF trainer0_facts reader_test0_facts, of st0] by blast

lemma batch_at_take:
  assumes "Suc i * 32 \<le> k"
  shows "batch_at (take k file) i = batch_at file i"
proof -
  have "take 32 (drop (i * 32) (take k file)) = take 32 (drop (i * 32) file)"
    using assms by (simp add: drop_take min_def)
  then show ?thesis by (simp add: batch_at_def)
qed

lemma eval_error_at_take:
  "Suc i * 32 \<le> k \<Longrightarrow>
     eval_error_at fw tr st (take k file) i = eval_error_at fw tr st file i"
  by (simp add: eval_error_at_def batch_at_take)

text \<open>
  Claim C9. On a fresh test reader over 10000 samples the loop ends with the denominator
  \<open>9984 = (10000 div 32) * 32\<close> and with the reader at position 9984: the last 16 samples
  are never requested. They have no effect on the result: a reader whose file agrees on the
  first 9984 samples, whatever follows them, gives the same test error.
\<close>

theorem unread_test_samples:
  assumes mf: "model_func = create_model \<or> model_func = create_deep_model"
    and m: "tr_metric tr = tr_metric (fst (make_trainer fw model_func nb))"
    and eval_mode: "\<not> rd_training reader_test" and pos: "rd_pos reader_test = 0"
    and len: "length (rd_samples reader_test) = num_samples"
    and ok: "list_all (\<lambda>smp. length (features smp) = input_dim) (rd_samples reader_test)"
    and eval_mode': "\<not> rd_training other" and pos': "rd_pos other = 0"
    and same: "take 9984 (rd_samples other) = take 9984 (rd_samples reader_test)"
  shows "\<exists>rd rd' metric_numer test_error.
           test_loop fw (nat \<lfloor>num_minibatches_to_test\<rfloor>) (reader_test, tr, st, 0, 0)
             = Inr (rd, tr, st, metric_numer, 9984)
         \<and> (9984::nat) = 10000 div 32 * 32
         \<and> rd_pos rd = 9984 \<and> rd_samples rd = rd_samples reader_test
         \<and> length (rd_samples rd) - rd_pos rd = 16
         \<and> testing_phase fw reader_test tr st = Inr (rd, tr, st, test_error)
         \<and> testing_phase fw other tr st = Inr (rd', tr, st, test_error)"
proof -
  let ?file = "rd_samples reader_test"
  have fit: "\<And>smp::sample. length (features smp) = input_dim \<Longrightarrow>
                  \<exists>b. eval (misclassified fw) st (\<lambda>v. features smp) (tr_metric tr) = Inr [b]
                      \<and> 0 \<le> b \<and> b \<le> 1"
    unfolding m by (rule metric_eval [OF mf])
  from len have len1: "9984 \<le> length ?file" by (simp add: num_samples_def)
  from ok have ok1: "list_all (\<lambda>s. length (features s) = input_dim) (take 9984 ?file)"
    by (auto simp: list_all_iff dest: in_set_takeD)
  have "length (take 9984 (rd_samples other)) = 9984" unfolding same using len1 by simp
  then have len2: "9984 \<le> length (rd_samples other)" by simp
  from ok1 same have ok2:
    "list_all (\<lambda>s. length (features s) = input_dim) (take 9984 (rd_samples other))" by simp
  note one = testing_phase_spec [OF fit eval_mode pos len1 ok1]
  note two = testing_phase_spec [OF fit eval_mode' pos' len2 ok2]
  have "eval_error_at fw tr st (rd_samples other) i = eval_error_at fw tr st ?file i"
    if "i < 312" for i
  proof -
    from that have i: "Suc i * 32 \<le> 9984" by simp
    have "eval_error_at fw tr st (rd_samples other) i
            = eval_error_at fw tr st (take 9984 (rd_samples other)) i"
      by (rule eval_error_at_take [OF i, symmetric])
    also have "\<dots> = eval_error_at fw tr st (take 9984 ?file) i" by (simp only: same)
    also have "\<dots> = eval_error_at fw tr st ?file i" by (rule eval_error_at_take [OF i])
    finally show ?thesis .
  qed
  then have "(\<Sum>i<312. eval_error_at fw tr st (rd_samples other) i * 32)
           = (\<Sum>i<312. eval_error_at fw tr st ?file i * 32)"
    by (intro sum.cong) simp_all
  with two have two': "testing_phase fw other tr st =
      Inr (other\<lparr>rd_pos := 9984\<rparr>, tr, st,
           (\<Sum>i<312. eval_error_at fw tr st ?file i * 32) * 100 / 9984)" by simp
  show ?thesis
    apply (rule exI [of _ "reader_test\<lparr>rd_pos := 9984\<rparr>"])
    apply (rule exI [of _ "other\<lparr>rd_pos := 9984\<rparr>"])
    apply (rule exI [of _ "\<Sum>i<312. eval_error_at fw tr st ?file i * 32"])
    apply (rule exI [of _ "(\<Sum>i<312. eval_error_at fw tr st ?file i * 32) * 100 / 9984"])
    using one two' len by (simp add: num_minibatches_to_test_int num_samples_def)
qed

text \<open>The test file against a file whose last 16 records are malformed.\<close>

theorem unread_test_samples_witness:
  "\<exists>rd rd' metric_numer test_error.
           test_loop fw0 (nat \<lfloor>num_minibatches_to_test\<rfloor>) (reader_test0, trainer0, st0, 0, 0)
             = Inr (rd, trainer0, st0, metric_numer, 9984)
         \<and> rd_pos rd = 9984
         \<and> length (rd_samples rd) - rd_pos rd = 16
         \<and> testing_phase fw0 reader_test0 trainer0 st0 = Inr (rd, trainer0, st0, test_error)
         \<and> testing_phase fw0 reader_other0 trainer0 st0 = Inr (rd', trainer0, st0, test_error)"
proof -
  have o: "\<not> rd_training reader_other0" "rd_pos reader_other0 = 0"
    "take 9984 (rd_samples reader_other0) = take 9984 (rd_samples reader_test0)"
    by (simp_all add: reader_other0_def reader_test0_def create_reader_def test_file_def)
  from unread_test_samples [OF trainer0_facts reader_test0_facts o, of st0]
  show ?thesis by blast
qed

text \<open>
  Claim C4. Whenever the evaluation phase returns, for any trainer, any parameter values and any
  test reader, the parameters (every weight and every bias) and the trainer are the ones it
  was given, and running it again on them and on the same data returns the same error.
\<close>

theorem evaluation_preserves_parameters:
  assumes "testing_phase fw reader_test tr st = Inr (rd, tr', st', test_error)"
  shows "st' = st \<and> weights st' = weights st \<and> biases st' = biases st \<and> tr' = tr
       \<and> testing_phase fw reader_test tr' st' = Inr (rd, tr', st', test_error)"
proof -
  from assms obtain numer denom where
    "test_loop fw (nat \<lfloor>num_minibatches_to_test\<rfloor>) (reader_test, tr, st, 0, 0)
       = Inr (rd, tr', st', numer, denom)"
    by (auto simp: testing_phase_def split: sum.splits if_splits)
  from test_loop_frame [OF this] have "tr' = tr" "st' = st" by simp_all
  with assms show ?thesis by simp
qed

lemma testing_phase_returns0:
  "\<exists>rd e. testing_phase fw0 reader_test0 trainer0 st0 = Inr (rd, trainer0, st0, e)"
proof -
  have fit: "\<And>smp::sample. length (features smp) = input_dim \<Longrightarrow>
                  \<exists>b. eval (misclassified fw0) st0 (\<lambda>v. features smp) (tr_metric trainer0)
                        = Inr [b] \<and> 0 \<le> b \<and> b \<le> 1"
    unfolding trainer0_def by (rule metric_eval [OF trainer0_facts(1)])
  have len: "9984 \<le> length (rd_samples reader_test0)"
    using reader_test0_facts(3) by (simp add: num_samples_def)
  have ok: "list_all (\<lambda>s. length (features s) = input_dim) (take 9984 (rd_samples reader_test0))"
    using reader_test0_facts(4) by (auto simp: list_all_iff dest: in_set_takeD)
  from testing_phase_spec(2) [OF fit reader_test0_facts(1,2) len ok] show ?thesis by blast
qed

text \<open>The evaluation of the simple model on the test file returns, so the claim applies.\<close>

theorem evaluation_preserves_parameters_witness:
  "\<exists>rd tr' st' test_error.
      testing_phase fw0 reader_test0 trainer0 st0 = Inr (rd, tr', st', test_error)
      \<and> st' = st0 \<and> tr' = trainer0
      \<and> testing_phase fw0 reader_test0 tr' st' = Inr (rd, tr', st', test_error)"
proof -
  from testing_phase_returns0 obtain rd e where
    run: "testing_phase fw0 reader_test0 trainer0 st0 = Inr (rd, trainer0, st0, e)" by blast
  from evaluation_preserves_parameters [OF run] run show ?thesis by blast
qed

subsection \<open>The whole of \<open>train_and_test\<close>\<close>

text \<open>
  On a training reader over a non-empty file and a fresh test reader over 10000 samples, all of
  784 pixels, \<open>train_and_test\<close> returns the model it built and two percentages.
\<close>

lemma sum_bounds:
  fixes e :: "nat \<Rightarrow> real"
  assumes "\<And>i. i < n \<Longrightarrow> 0 \<le> e i \<and> e i \<le> 1"
  shows "0 \<le> (\<Sum>i<n. e i * 32) \<and> (\<Sum>i<n. e i * 32) \<le> real n * 32"
proof -
  have "0 \<le> (\<Sum>i<n. e i * 32)" using assms by (intro sum_nonneg) simp
  moreover have "(\<Sum>i<n. e i * 32) \<le> (\<Sum>i<n. 32)"
    using assms by (intro sum_mono) simp
  ultimately show ?thesis by simp
qed

lemma train_and_test_returns:
  assumes mf: "model_func = create_model \<or> model_func = create_deep_model"
    and training: "rd_training reader_train" and ne: "rd_samples reader_train \<noteq> []"
    and ok: "list_all (\<lambda>smp. length (features smp) = input_dim) (rd_samples reader_train)"
    and eval_mode: "\<not> rd_training reader_test" and pos: "rd_pos reader_test = 0"
    and len: "length (rd_samples reader_test) = num_samples"
    and ok': "list_all (\<lambda>smp. length (features smp) = input_dim) (rd_samples reader_test)"
  shows "\<exists>train_error test_error s' rd_train rd_test.
           train_and_test fw reader_train reader_test model_func s
             = Inr ((fst (model_func (Input V_input input_dim) s), train_error, test_error),
                    s', rd_train, rd_test)
           \<and> 0 \<le> train_error \<and> train_error \<le> 100
           \<and> 0 \<le> test_error \<and> test_error \<le> 100
           \<and> rd_pos rd_test = 9984"
proof -
  obtain trainer s1 where mk: "make_trainer fw model_func s = (trainer, s1)"
    by (cases "make_trainer fw model_func s")
  then have tr: "trainer = fst (make_trainer fw model_func s)" by simp
  have fit: "\<And>st (smp::sample). length (features smp) = input_dim \<Longrightarrow>
                  \<exists>b. eval (misclassified fw) st (\<lambda>v. features smp) (tr_metric trainer) = Inr [b]
                      \<and> 0 \<le> b \<and> b \<le> 1"
    unfolding tr by (rule metric_eval [OF mf])
  from training_phase_spec [OF fit training ne ok, of "isFast s1" "params s1"]
  obtain rd tr1 st1 train_error where
    train: "training_phase fw (isFast s1) reader_train trainer (params s1)
              = Inr (rd, tr1, st1, train_error)"
    and m1: "tr_metric tr1 = tr_metric trainer"
    and te: "0 \<le> train_error" "train_error \<le> 100" by blast
  have fit1: "\<And>smp::sample. length (features smp) = input_dim \<Longrightarrow>
                  \<exists>b. eval (misclassified fw) st1 (\<lambda>v. features smp) (tr_metric tr1) = Inr [b]
                      \<and> 0 \<le> b \<and> b \<le> 1"
    unfolding m1 by (rule fit)
  let ?file = "rd_samples reader_test"
  from len have len1: "9984 \<le> length ?file" by (simp add: num_samples_def)
  from ok' have ok1: "list_all (\<lambda>s. length (features s) = input_dim) (take k ?file)" for k
    by (auto simp: list_all_iff dest: in_set_takeD)
  let ?numer = "\<Sum>i<312. eval_error_at fw tr1 st1 ?file i * 32"
  have test: "testing_phase fw reader_test tr1 st1
                = Inr (reader_test\<lparr>rd_pos := 9984\<rparr>, tr1, st1, ?numer * 100 / 9984)"
    by (rule testing_phase_spec(2) [OF fit1 eval_mode pos len1 ok1])
  have "0 \<le> eval_error_at fw tr1 st1 ?file i \<and> eval_error_at fw tr1 st1 ?file i \<le> 1"
    if "i < 312" for i
  proof -
    from that len1 have "Suc i * 32 \<le> length ?file" by simp
    from batch_at_ok [OF fit1 this ok1] show ?thesis by simp
  qed
  from sum_bounds [of 312 "eval_error_at fw tr1 st1 ?file", OF this]
  have n: "0 \<le> ?numer" "?numer \<le> 9984" by simp_all
  define test_error where "test_error = ?numer * 100 / 9984"
  define rd_test where "rd_test = reader_test\<lparr>rd_pos := 9984\<rparr>"
  have b: "0 \<le> test_error" "test_error \<le> 100" "rd_pos rd_test = 9984"
    using n by (simp_all add: test_error_def rd_test_def)
  have "train_and_test fw reader_train reader_test model_func s
          = Inr ((tr_model trainer, train_error, test_error),
                 s1\<lparr>params := st1\<rparr>, rd, rd_test)"
    using mk train test by (simp add: train_and_test_def test_error_def rd_test_def)
  then have "train_and_test fw reader_train reader_test model_func s
          = Inr ((fst (model_func (Input V_input input_dim) s), train_error, test_error),
                 s1\<lparr>params := st1\<rparr>, rd, rd_test)"
    by (simp only: tr make_trainer_model)
  with te b show ?thesis by blast
qed

end
